theory Spec2Isabelle
  imports Main "HOL-Library.Multiset" "HOL-Library.Product_Lexorder" "HOL-Library.List_Lexorder" "HOL-Library.Char_ord"
begin

section \<open>JavaScript values\<close>

text \<open>
  The backend is JavaScript glue code over JSON-like data. A value is one of the JSON
  shapes plus \<open>undefined\<close>. Numbers are modelled as integers (counts, limits and epoch
  milliseconds are all the code computes with; \<open>NaN\<close> and fractions are outside the
  model). An object is an association list in insertion order with unique keys, as a
  JavaScript object enumerates its own properties.
\<close>

datatype jsval =
    JUndefined
  | JNull
  | JBool bool
  | JNum int
  | JStr string
  | JArr "jsval list"
  | JObj "(string \<times> jsval) list"

type_synonym jsobj = "(string \<times> jsval) list"

text \<open>A thrown value. Everything the code catches is an \<open>Error\<close> object; only its
  \<open>message\<close> is ever read.\<close>

datatype js_error = TypeError string | FirebaseError string | Error string

fun message :: "js_error \<Rightarrow> string" where
  "message (TypeError m) = m"
| "message (FirebaseError m) = m"
| "message (Error m) = m"

text \<open>\<open>!!v\<close>: the falsy values are \<open>undefined\<close>, \<open>null\<close>, \<open>false\<close>, \<open>0\<close> and \<open>''\<close>.\<close>

fun truthy :: "jsval \<Rightarrow> bool" where
  "truthy JUndefined = False"
| "truthy JNull = False"
| "truthy (JBool b) = b"
| "truthy (JNum n) = (n \<noteq> 0)"
| "truthy (JStr s) = (s \<noteq> [])"
| "truthy (JArr xs) = True"
| "truthy (JObj kvs) = True"

text \<open>\<open>a || b\<close> on values.\<close>

definition js_or :: "jsval \<Rightarrow> jsval \<Rightarrow> jsval" where
  "js_or a b = (if truthy a then a else b)"

text \<open>Own-property lookup \<open>o[k]\<close> on an object literal; a missing key reads \<open>undefined\<close>.\<close>

definition obj_get :: "jsobj \<Rightarrow> string \<Rightarrow> jsval" where
  "obj_get kvs k = (case map_of kvs k of None \<Rightarrow> JUndefined | Some v \<Rightarrow> v)"

text \<open>Property assignment keeps the position of an existing key and appends a new one.\<close>

fun obj_set :: "jsobj \<Rightarrow> string \<Rightarrow> jsval \<Rightarrow> jsobj" where
  "obj_set [] k v = [(k, v)]"
| "obj_set ((k', v') # kvs) k v =
     (if k' = k then (k, v) # kvs else (k', v') # obj_set kvs k v)"

text \<open>Decimal rendering of a number, as a template literal prints it.\<close>

definition digit_char :: "nat \<Rightarrow> char" where
  "digit_char d = ''0123456789'' ! d"

fun show_nat :: "nat \<Rightarrow> string" where
  "show_nat n =
     (if n < 10 then [digit_char n]
      else show_nat (n div 10) @ [digit_char (n mod 10)])"

declare show_nat.simps [simp del]

definition show_int :: "int \<Rightarrow> string" where
  "show_int i = (if i < 0 then CHR ''-'' # show_nat (nat (- i)) else show_nat (nat i))"

fun enumerate_from :: "nat \<Rightarrow> 'a list \<Rightarrow> (nat \<times> 'a) list" where
  "enumerate_from n [] = []"
| "enumerate_from n (x # xs) = (n, x) # enumerate_from (Suc n) xs"

text \<open>The own enumerable properties that an object spread \<open>{...v}\<close> copies:
  nothing for \<open>undefined\<close>, \<open>null\<close>, booleans and numbers, the index keys for a
  string or an array, the entries for an object.\<close>

fun own_entries :: "jsval \<Rightarrow> jsobj" where
  "own_entries (JObj kvs) = kvs"
| "own_entries (JArr xs) = map (\<lambda>(i, x). (show_nat i, x)) (enumerate_from 0 xs)"
| "own_entries (JStr s) = map (\<lambda>(i, c). (show_nat i, JStr [c])) (enumerate_from 0 s)"
| "own_entries _ = []"

text \<open>\<open>{...a, ...b}\<close>: spread \<open>src\<close> into the object built so far.\<close>

definition spread :: "jsobj \<Rightarrow> jsobj \<Rightarrow> jsobj" where
  "spread acc src = foldl (\<lambda>a (k, v). obj_set a k v) acc src"

text \<open>Property read \<open>v.k\<close> for the data keys the code reads (none of them is a
  prototype property except \<open>length\<close>): a \<open>TypeError\<close> on \<open>undefined\<close> and
  \<open>null\<close>, the own property otherwise.\<close>

fun js_get :: "jsval \<Rightarrow> string \<Rightarrow> js_error + jsval" where
  "js_get JUndefined k = Inl (TypeError (''Cannot read properties of undefined (reading '' @ [CHR 0x27] @ k @ [CHR 0x27] @ '')''))"
| "js_get JNull k = Inl (TypeError (''Cannot read properties of null (reading '' @ [CHR 0x27] @ k @ [CHR 0x27] @ '')''))"
| "js_get (JObj kvs) k = Inr (obj_get kvs k)"
| "js_get (JArr xs) k =
     Inr (if k = ''length'' then JNum (int (length xs)) else obj_get (own_entries (JArr xs)) k)"
| "js_get (JStr s) k =
     Inr (if k = ''length'' then JNum (int (length s)) else obj_get (own_entries (JStr s)) k)"
| "js_get _ k = Inr JUndefined"

text \<open>\<open>String.prototype.includes\<close>: the needle occurs as a contiguous substring.\<close>

fun starts_with :: "string \<Rightarrow> string \<Rightarrow> bool" where
  "starts_with s [] = True"
| "starts_with [] (c # cs) = False"
| "starts_with (d # ds) (c # cs) = (d = c \<and> starts_with ds cs)"

fun js_includes :: "string \<Rightarrow> string \<Rightarrow> bool" where
  "js_includes [] needle = (needle = [])"
| "js_includes (c # cs) needle = (starts_with (c # cs) needle \<or> js_includes cs needle)"

text \<open>Joining strings with a separator, as \<open>Array.prototype.join\<close> does.\<close>

fun join_with :: "string \<Rightarrow> string list \<Rightarrow> string" where
  "join_with sep [] = []"
| "join_with sep [x] = x"
| "join_with sep (x # y # ys) = x @ sep @ join_with sep (y # ys)"

text \<open>\<open>String(v)\<close>, as template literals and \<open>Array.prototype.join\<close> apply it; inside
  an array \<open>undefined\<close> and \<open>null\<close> print as the empty string.\<close>

fun to_string :: "jsval \<Rightarrow> string" where
  "to_string JUndefined = ''undefined''"
| "to_string JNull = ''null''"
| "to_string (JBool b) = (if b then ''true'' else ''false'')"
| "to_string (JNum n) = show_int n"
| "to_string (JStr s) = s"
| "to_string (JArr xs) =
     join_with '','' (map (\<lambda>x. if x = JUndefined \<or> x = JNull then [] else to_string x) xs)"
| "to_string (JObj kvs) = ''[object Object]''"

definition array_join :: "string \<Rightarrow> jsval list \<Rightarrow> string" where
  "array_join sep xs =
     join_with sep (map (\<lambda>x. if x = JUndefined \<or> x = JNull then [] else to_string x) xs)"

text \<open>\<open>Number(v)\<close> within the integer model; \<open>None\<close> is \<open>NaN\<close>. A string converts when,
  trimmed, it is empty or an optionally signed run of decimal digits.\<close>

definition is_digit :: "char \<Rightarrow> bool" where
  "is_digit c = (c \<in> set ''0123456789'')"

fun digits_value :: "int \<Rightarrow> string \<Rightarrow> int option" where
  "digits_value acc [] = Some acc"
| "digits_value acc (c # cs) =
     (if is_digit c then digits_value (10 * acc + (int (of_char c) - 48)) cs else None)"

definition string_to_number :: "string \<Rightarrow> int option" where
  "string_to_number s =
     (case rev (dropWhile (\<lambda>c. c = CHR '' '') (rev (dropWhile (\<lambda>c. c = CHR '' '') s))) of
        [] \<Rightarrow> Some 0
      | c # cs \<Rightarrow>
          if c = CHR ''-'' then (if cs = [] then None else map_option uminus (digits_value 0 cs))
          else if c = CHR ''+'' then (if cs = [] then None else digits_value 0 cs)
          else digits_value 0 (c # cs))"

fun to_number :: "jsval \<Rightarrow> int option" where
  "to_number JUndefined = None"
| "to_number JNull = Some 0"
| "to_number (JBool b) = Some (if b then 1 else 0)"
| "to_number (JNum n) = Some n"
| "to_number (JStr s) = string_to_number s"
| "to_number (JArr xs) = string_to_number (to_string (JArr xs))"
| "to_number (JObj kvs) = None"

text \<open>\<open>v > n\<close> against a number literal.\<close>

definition js_gt :: "jsval \<Rightarrow> int \<Rightarrow> bool" where
  "js_gt v n = (case to_number v of None \<Rightarrow> False | Some m \<Rightarrow> n < m)"

section \<open>The Storage Gateway as its callers see it\<close>

text \<open>
  The route layer and the context tool hold a reference to a memory service (the
  Firebase gateway, or one of the two mock objects server.js builds when the gateway
  cannot be constructed). A call either returns a value or throws. The callers are
  modelled over any such service and return the list of calls they made, in order.
\<close>

datatype gw_call =
    StoreConversation jsval jsval
  | GetConversationHistory jsval jsval
  | StoreStageProgression jsval jsval
  | StoreUserProfile jsval jsval
  | GetUserProfile jsval
  | ClearUserData jsval
  | StoreUserContext jsval jsval
  | GetUserStageProgressions jsval jsval
  | GetUserContext jsval jsval
  | StoreSessionStageProgression jsval jsval jsval
  | StoreSessionUserContext jsval jsval jsval
  | StoreBreakthroughMoment jsval jsval jsval
  | StoreTherapeuticTheme jsval jsval jsval
  | GetSessionData jsval jsval jsval
  | GetCurrentSessionId jsval

type_synonym service = "gw_call \<Rightarrow> js_error + jsval"

section \<open>The document store as the gateway sees it\<close>

text \<open>
  The document database is an external collaborator. What it answers is given by a
  record of outcomes, one per client call the gateway makes; every call may fail with
  an error message. A path is the list of segments handed to \<open>collection\<close> or
  \<open>doc\<close>.
  \<^item> \<open>ref_fault\<close>: \<open>collection(...)\<close> or \<open>doc(...)\<close> throws for this path;
  \<^item> \<open>auto_id\<close>: the identifier \<open>doc(collectionRef)\<close> generates;
  \<^item> \<open>setDoc_fault\<close>: \<open>setDoc\<close> rejects;
  \<^item> \<open>getDoc_outcome\<close>: the fields of one document, \<open>None\<close> when it does not exist;
  \<^item> \<open>getDocs_outcome\<close>: the documents of a collection as (id, fields), in the
    order the store returns them when no order is asked for;
  \<^item> \<open>commit_fault\<close>: \<open>batch.commit()\<close> rejects;
  \<^item> \<open>other_limit\<close>: how the store answers a query whose limit is neither a number
    nor the decimal numeral of one: it rejects it, or cuts the result to a number of
    documents.
\<close>

type_synonym path = "jsval list"

record backend =
  ref_fault :: "path \<Rightarrow> string option"
  auto_id :: "path \<Rightarrow> string"
  setDoc_fault :: "path \<Rightarrow> jsobj \<Rightarrow> string option"
  getDoc_outcome :: "path \<Rightarrow> string + jsobj option"
  getDocs_outcome :: "path \<Rightarrow> string + (string \<times> jsobj) list"
  commit_fault :: "path list \<Rightarrow> string option"
  other_limit :: "jsval \<Rightarrow> string + nat"

text \<open>What a gateway call does to the store: a \<open>setDoc\<close> of a record (with the
  \<open>merge\<close> flag) or a committed batch of deletes.\<close>

datatype effect = SetDoc path jsobj bool | BatchDelete "path list"

text \<open>Sequencing of statements that may throw, and \<open>try { ... } catch (error) { ... }\<close>.\<close>

definition bind :: "js_error + 'a \<Rightarrow> ('a \<Rightarrow> js_error + 'b) \<Rightarrow> js_error + 'b" where
  "bind m f = (case m of Inl e \<Rightarrow> Inl e | Inr x \<Rightarrow> f x)"

definition try_catch :: "js_error + 'a \<Rightarrow> (js_error \<Rightarrow> js_error + 'a) \<Rightarrow> js_error + 'a" where
  "try_catch m h = (case m of Inl e \<Rightarrow> h e | Inr x \<Rightarrow> Inr x)"

definition make_ref :: "backend \<Rightarrow> path \<Rightarrow> js_error + path" where
  "make_ref b p = (case ref_fault b p of Some m \<Rightarrow> Inl (FirebaseError m) | None \<Rightarrow> Inr p)"

definition getDocs :: "backend \<Rightarrow> path \<Rightarrow> js_error + (string \<times> jsobj) list" where
  "getDocs b p = (case getDocs_outcome b p of Inl m \<Rightarrow> Inl (FirebaseError m) | Inr ds \<Rightarrow> Inr ds)"

text \<open>\<open>doc.data()\<close>: the object built from the stored fields.\<close>

definition data_of :: "jsobj \<Rightarrow> jsobj" where
  "data_of stored = spread [] stored"

text \<open>\<open>{ id: doc.id, ...doc.data() }\<close>.\<close>

definition entry_of :: "string \<times> jsobj \<Rightarrow> jsval" where
  "entry_of d = JObj (spread [(''id'', JStr (fst d))] (data_of (snd d)))"

text \<open>\<open>limit(n)\<close>: the client throws when \<open>n <= 0\<close>, a comparison that converts \<open>n\<close>
  to a number and is false for \<open>NaN\<close>, and hands every other value on to the store. A
  number, or a string that is the decimal numeral of one, limits the result to that many
  documents; how the store answers any other value is the backend's \<open>other_limit\<close>.
  (\<open>to_number\<close> knows integers only, so a fractional value is among the other values.)\<close>

definition store_limit :: "backend \<Rightarrow> jsval \<Rightarrow> js_error + nat" where
  "store_limit b v = (case other_limit b v of Inl msg \<Rightarrow> Inl (FirebaseError msg) | Inr n \<Rightarrow> Inr n)"

definition fs_limit :: "backend \<Rightarrow> jsval \<Rightarrow> js_error + nat" where
  "fs_limit b v =
     (if (case to_number v of Some m \<Rightarrow> m \<le> 0 | None \<Rightarrow> False)
      then Inl (FirebaseError
             (''Function limit() requires a positive number, but it was: '' @ to_string v @ ''.''))
      else (case v of
              JNum n \<Rightarrow> Inr (nat n)
            | JStr s \<Rightarrow>
                (case string_to_number s of
                   Some m \<Rightarrow> if s = show_int m then Inr (nat m) else store_limit b v
                 | None \<Rightarrow> store_limit b v)
            | _ \<Rightarrow> store_limit b v))"

text \<open>The store's order on field values, as a key under the lexicographic order of
  lists: by type first (null, boolean, number, string, array, map), then by value.
  Strings compare byte by byte, arrays element by element, maps entry by entry in key
  order (the key, then the value); a proper prefix comes first. Every key closes with a
  0, which is below every byte and below the 1 that opens an element or an entry, so
  comparing the concatenated keys compares the parts one after the other.
  (\<open>undefined\<close> is not a value the store holds; it shares the key of \<open>null\<close>.)\<close>

definition string_key :: "string \<Rightarrow> int list" where
  "string_key s = map (\<lambda>c. int (of_char c) + 1) s @ [0]"

fun fs_order_key :: "jsval \<Rightarrow> int list" where
  "fs_order_key JUndefined = [0]"
| "fs_order_key JNull = [0]"
| "fs_order_key (JBool b) = [1, if b then 1 else 0]"
| "fs_order_key (JNum n) = [2, n]"
| "fs_order_key (JStr s) = 3 # string_key s"
| "fs_order_key (JArr xs) = 4 # concat (map (\<lambda>x. 1 # fs_order_key x) xs) @ [0]"
| "fs_order_key (JObj kvs) =
     5 # concat (map (\<lambda>kv. 1 # string_key (fst kv) @ snd kv)
                   (sort_key fst (map (\<lambda>kv. (fst kv, fs_order_key (snd kv))) kvs))) @ [0]"

definition timestamp_key :: "string \<times> jsobj \<Rightarrow> int list" where
  "timestamp_key d = fs_order_key (obj_get (data_of (snd d)) ''timestamp'')"

text \<open>\<open>orderBy('timestamp', ...)\<close> passes only the documents that have the field, and
  orders documents of equal \<open>timestamp\<close> by their id.\<close>

definition stamped :: "(string \<times> jsobj) list \<Rightarrow> (string \<times> jsobj) list" where
  "stamped ds = filter (\<lambda>d. map_of (data_of (snd d)) ''timestamp'' \<noteq> None) ds"

definition query_key :: "string \<times> jsobj \<Rightarrow> int list \<times> string" where
  "query_key d = (timestamp_key d, fst d)"

text \<open>\<open>query(ref, orderBy('timestamp', 'desc'), limit(n))\<close>: the documents that have the
  field, in descending order, at most \<open>n\<close> of them.\<close>

definition query_recent :: "nat \<Rightarrow> (string \<times> jsobj) list \<Rightarrow> (string \<times> jsobj) list" where
  "query_recent n ds = take n (rev (sort_key query_key (stamped ds)))"

section \<open>Storage Gateway (FirebaseMemoryService)\<close>

definition success_id :: "string \<Rightarrow> jsval" where
  "success_id i = JObj [(''success'', JBool True), (''id'', JStr i)]"

definition failure :: "js_error \<Rightarrow> jsval" where
  "failure error = JObj [(''success'', JBool False), (''error'', JStr (message error))]"

text \<open>The body shared by the seven timestamped writes:
  \<open>setDoc(doc(collection(db, ...coll)), {...data, [sessionId,] timestamp: data.timestamp || now, createdAt: now})\<close>.
  \<open>extra\<close> is \<open>[(sessionId, s)]\<close> for the session writes and empty otherwise;
  \<open>now_ts\<close> and \<open>now_created\<close> are the two clock readings.\<close>

definition store_record_body ::
  "backend \<Rightarrow> path \<Rightarrow> jsobj \<Rightarrow> string \<Rightarrow> string \<Rightarrow> jsval \<Rightarrow> effect list \<times> (js_error + jsval)" where
  "store_record_body b coll extra now_ts now_created dat =
     (case make_ref b coll of
        Inl e \<Rightarrow> ([], Inl e)
      | Inr c \<Rightarrow>
          (let ref = c @ [JStr (auto_id b c)] in
           case js_get dat ''timestamp'' of
             Inl e \<Rightarrow> ([], Inl e)
           | Inr ts \<Rightarrow>
               (let rec0 = spread (spread [] (own_entries dat)) extra;
                    rec1 = obj_set rec0 ''timestamp'' (js_or ts (JStr now_ts));
                    rec2 = obj_set rec1 ''createdAt'' (JStr now_created)
                in case setDoc_fault b ref rec2 of
                     Some m \<Rightarrow> ([], Inl (FirebaseError m))
                   | None \<Rightarrow> ([SetDoc ref rec2 False], Inr (success_id (auto_id b c))))))"

definition store_record ::
  "backend \<Rightarrow> path \<Rightarrow> jsobj \<Rightarrow> string \<Rightarrow> string \<Rightarrow> jsval \<Rightarrow> effect list \<times> (js_error + jsval)" where
  "store_record b coll extra now_ts now_created dat =
     (let r = store_record_body b coll extra now_ts now_created dat
      in (fst r, try_catch (snd r) (\<lambda>error. Inr (failure error))))"

definition storeConversation ::
  "backend \<Rightarrow> string \<Rightarrow> string \<Rightarrow> jsval \<Rightarrow> jsval \<Rightarrow> effect list \<times> (js_error + jsval)" where
  "storeConversation b now_ts now_created userUUID conversationData =
     store_record b [JStr ''users'', userUUID, JStr ''conversations''] [] now_ts now_created conversationData"

definition storeStageProgression ::
  "backend \<Rightarrow> string \<Rightarrow> string \<Rightarrow> jsval \<Rightarrow> jsval \<Rightarrow> effect list \<times> (js_error + jsval)" where
  "storeStageProgression b now_ts now_created userUUID stageData =
     store_record b [JStr ''users'', userUUID, JStr ''stages''] [] now_ts now_created stageData"

definition storeUserContext ::
  "backend \<Rightarrow> string \<Rightarrow> string \<Rightarrow> jsval \<Rightarrow> jsval \<Rightarrow> effect list \<times> (js_error + jsval)" where
  "storeUserContext b now_ts now_created userUUID contextData =
     store_record b [JStr ''users'', userUUID, JStr ''context''] [] now_ts now_created contextData"

definition storeSessionStageProgression ::
  "backend \<Rightarrow> string \<Rightarrow> string \<Rightarrow> jsval \<Rightarrow> jsval \<Rightarrow> jsval \<Rightarrow> effect list \<times> (js_error + jsval)" where
  "storeSessionStageProgression b now_ts now_created userUUID sessionId stageData =
     store_record b [JStr ''users'', userUUID, JStr ''sessions'', sessionId, JStr ''stages'']
       [(''sessionId'', sessionId)] now_ts now_created stageData"

definition storeSessionUserContext ::
  "backend \<Rightarrow> string \<Rightarrow> string \<Rightarrow> jsval \<Rightarrow> jsval \<Rightarrow> jsval \<Rightarrow> effect list \<times> (js_error + jsval)" where
  "storeSessionUserContext b now_ts now_created userUUID sessionId contextData =
     store_record b [JStr ''users'', userUUID, JStr ''sessions'', sessionId, JStr ''context'']
       [(''sessionId'', sessionId)] now_ts now_created contextData"

definition storeBreakthroughMoment ::
  "backend \<Rightarrow> string \<Rightarrow> string \<Rightarrow> jsval \<Rightarrow> jsval \<Rightarrow> jsval \<Rightarrow> effect list \<times> (js_error + jsval)" where
  "storeBreakthroughMoment b now_ts now_created userUUID sessionId breakthroughData =
     store_record b [JStr ''users'', userUUID, JStr ''sessions'', sessionId, JStr ''breakthroughs'']
       [(''sessionId'', sessionId)] now_ts now_created breakthroughData"

definition storeTherapeuticTheme ::
  "backend \<Rightarrow> string \<Rightarrow> string \<Rightarrow> jsval \<Rightarrow> jsval \<Rightarrow> jsval \<Rightarrow> effect list \<times> (js_error + jsval)" where
  "storeTherapeuticTheme b now_ts now_created userUUID sessionId themeData =
     store_record b [JStr ''users'', userUUID, JStr ''sessions'', sessionId, JStr ''themes'']
       [(''sessionId'', sessionId)] now_ts now_created themeData"

text \<open>\<open>storeUserProfile\<close>: a merge write of \<open>{...profileData, lastUpdated: now}\<close>.\<close>

definition storeUserProfile_body ::
  "backend \<Rightarrow> string \<Rightarrow> jsval \<Rightarrow> jsval \<Rightarrow> effect list \<times> (js_error + jsval)" where
  "storeUserProfile_body b now userUUID profileData =
     (case make_ref b [JStr ''users'', userUUID] of
        Inl e \<Rightarrow> ([], Inl e)
      | Inr profileRef \<Rightarrow>
          (let rec = obj_set (spread [] (own_entries profileData)) ''lastUpdated'' (JStr now)
           in case setDoc_fault b profileRef rec of
                Some m \<Rightarrow> ([], Inl (FirebaseError m))
              | None \<Rightarrow> ([SetDoc profileRef rec True], Inr (JObj [(''success'', JBool True)]))))"

definition storeUserProfile ::
  "backend \<Rightarrow> string \<Rightarrow> jsval \<Rightarrow> jsval \<Rightarrow> effect list \<times> (js_error + jsval)" where
  "storeUserProfile b now userUUID profileData =
     (let r = storeUserProfile_body b now userUUID profileData
      in (fst r, try_catch (snd r) (\<lambda>error. Inr (failure error))))"

definition getUserProfile :: "backend \<Rightarrow> jsval \<Rightarrow> js_error + jsval" where
  "getUserProfile b userUUID =
     try_catch
       (bind (make_ref b [JStr ''users'', userUUID]) (\<lambda>profileRef.
          case getDoc_outcome b profileRef of
            Inl m \<Rightarrow> Inl (FirebaseError m)
          | Inr (Some stored) \<Rightarrow> Inr (JObj (data_of stored))
          | Inr None \<Rightarrow> Inr JNull))
       (\<lambda>error. Inr JNull)"

text \<open>The three list reads differ in the collection and in the default limit only.\<close>

definition recent_entries :: "backend \<Rightarrow> path \<Rightarrow> jsval \<Rightarrow> js_error + jsval" where
  "recent_entries b coll limitCount =
     try_catch
       (bind (make_ref b coll) (\<lambda>ref.
        bind (fs_limit b limitCount) (\<lambda>n.
        bind (getDocs b ref) (\<lambda>ds.
          Inr (JArr (map entry_of (query_recent n ds)))))))
       (\<lambda>error. Inr (JArr []))"

definition default_arg :: "jsval \<Rightarrow> jsval \<Rightarrow> jsval" where
  "default_arg v d = (if v = JUndefined then d else v)"

definition getConversationHistory :: "backend \<Rightarrow> jsval \<Rightarrow> jsval \<Rightarrow> js_error + jsval" where
  "getConversationHistory b userUUID limitCount =
     recent_entries b [JStr ''users'', userUUID, JStr ''conversations'']
       (default_arg limitCount (JNum 50))"

definition getUserStageProgressions :: "backend \<Rightarrow> jsval \<Rightarrow> jsval \<Rightarrow> js_error + jsval" where
  "getUserStageProgressions b userUUID limitCount =
     recent_entries b [JStr ''users'', userUUID, JStr ''stages'']
       (default_arg limitCount (JNum 50))"

definition getUserContext :: "backend \<Rightarrow> jsval \<Rightarrow> jsval \<Rightarrow> js_error + jsval" where
  "getUserContext b userUUID limitCount =
     recent_entries b [JStr ''users'', userUUID, JStr ''context'']
       (default_arg limitCount (JNum 20))"

text \<open>\<open>clearUserData\<close>: one batch deleting the profile document and every document of
  the conversations and stages collections.\<close>

definition clearUserData_body :: "backend \<Rightarrow> jsval \<Rightarrow> effect list \<times> (js_error + jsval)" where
  "clearUserData_body b userUUID =
     (case bind (make_ref b [JStr ''users'', userUUID]) (\<lambda>userRef.
           bind (make_ref b [JStr ''users'', userUUID, JStr ''conversations'']) (\<lambda>conversationsRef.
           bind (getDocs b conversationsRef) (\<lambda>conversations.
           bind (make_ref b [JStr ''users'', userUUID, JStr ''stages'']) (\<lambda>stagesRef.
           bind (getDocs b stagesRef) (\<lambda>stages.
             Inr (userRef # map (\<lambda>d. conversationsRef @ [JStr (fst d)]) conversations
                          @ map (\<lambda>d. stagesRef @ [JStr (fst d)]) stages)))))) of
        Inl e \<Rightarrow> ([], Inl e)
      | Inr deletes \<Rightarrow>
          (case commit_fault b deletes of
             Some m \<Rightarrow> ([], Inl (FirebaseError m))
           | None \<Rightarrow> ([BatchDelete deletes], Inr (JObj [(''success'', JBool True)]))))"

definition clearUserData :: "backend \<Rightarrow> jsval \<Rightarrow> effect list \<times> (js_error + jsval)" where
  "clearUserData b userUUID =
     (let r = clearUserData_body b userUUID
      in (fst r, try_catch (snd r) (\<lambda>error. Inr (failure error))))"

text \<open>One of the four blocks of \<open>getSessionData\<close>: when the data type asks for it, read
  the whole sub-collection (no order, no limit) into \<open>sessionData[name]\<close>.\<close>

definition session_section ::
  "backend \<Rightarrow> jsval \<Rightarrow> jsval \<Rightarrow> jsval \<Rightarrow> string \<Rightarrow> jsobj \<Rightarrow> js_error + jsobj" where
  "session_section b userUUID sessionId dataType name sessionData =
     (if dataType = JStr ''all'' \<or> dataType = JStr name
      then bind (make_ref b [JStr ''users'', userUUID, JStr ''sessions'', sessionId, JStr name]) (\<lambda>ref.
           bind (getDocs b ref) (\<lambda>ds.
             Inr (obj_set sessionData name (JArr (map entry_of ds)))))
      else Inr sessionData)"

definition getSessionData :: "backend \<Rightarrow> jsval \<Rightarrow> jsval \<Rightarrow> jsval \<Rightarrow> js_error + jsval" where
  "getSessionData b userUUID sessionId dataType0 =
     (let dataType = default_arg dataType0 (JStr ''all'') in
      try_catch
        (bind (session_section b userUUID sessionId dataType ''stages'' []) (\<lambda>s1.
         bind (session_section b userUUID sessionId dataType ''context'' s1) (\<lambda>s2.
         bind (session_section b userUUID sessionId dataType ''breakthroughs'' s2) (\<lambda>s3.
         bind (session_section b userUUID sessionId dataType ''themes'' s3) (\<lambda>s4.
           Inr (JObj s4))))))
        (\<lambda>error. Inr (JObj [])))"

text \<open>\<open>getCurrentSessionId\<close>: \<open>now_iso\<close> is \<open>new Date().toISOString()\<close>, \<open>now_ms\<close>
  is \<open>Date.now()\<close>; \<open>split('T')[0]\<close> is the part before the first \<open>T\<close>.\<close>

definition getCurrentSessionId :: "string \<Rightarrow> nat \<Rightarrow> jsval \<Rightarrow> js_error + jsval" where
  "getCurrentSessionId now_iso now_ms userUUID =
     try_catch
       (Inr (JStr (''session_'' @ takeWhile (\<lambda>c. c \<noteq> CHR ''T'') now_iso @ ''_'' @ show_nat now_ms)))
       (\<lambda>error. Inr (JStr (''session_'' @ show_nat now_ms)))"

text \<open>The clock readings of one gateway call, by the place that reads them.\<close>

record clock =
  timestamp_now :: string
  createdAt_now :: string
  lastUpdated_now :: string
  session_date_now :: string
  session_ms_now :: nat

text \<open>The gateway object: every method by its call, with what it does to the store.\<close>

fun gateway :: "backend \<Rightarrow> clock \<Rightarrow> gw_call \<Rightarrow> effect list \<times> (js_error + jsval)" where
  "gateway b k (StoreConversation u d) = storeConversation b (timestamp_now k) (createdAt_now k) u d"
| "gateway b k (GetConversationHistory u n) = ([], getConversationHistory b u n)"
| "gateway b k (StoreStageProgression u d) = storeStageProgression b (timestamp_now k) (createdAt_now k) u d"
| "gateway b k (StoreUserProfile u d) = storeUserProfile b (lastUpdated_now k) u d"
| "gateway b k (GetUserProfile u) = ([], getUserProfile b u)"
| "gateway b k (ClearUserData u) = clearUserData b u"
| "gateway b k (StoreUserContext u d) = storeUserContext b (timestamp_now k) (createdAt_now k) u d"
| "gateway b k (GetUserStageProgressions u n) = ([], getUserStageProgressions b u n)"
| "gateway b k (GetUserContext u n) = ([], getUserContext b u n)"
| "gateway b k (StoreSessionStageProgression u s d) =
     storeSessionStageProgression b (timestamp_now k) (createdAt_now k) u s d"
| "gateway b k (StoreSessionUserContext u s d) =
     storeSessionUserContext b (timestamp_now k) (createdAt_now k) u s d"
| "gateway b k (StoreBreakthroughMoment u s d) =
     storeBreakthroughMoment b (timestamp_now k) (createdAt_now k) u s d"
| "gateway b k (StoreTherapeuticTheme u s d) =
     storeTherapeuticTheme b (timestamp_now k) (createdAt_now k) u s d"
| "gateway b k (GetSessionData u s t) = ([], getSessionData b u s t)"
| "gateway b k (GetCurrentSessionId u) =
     ([], getCurrentSessionId (session_date_now k) (session_ms_now k) u)"

text \<open>The gateway as a service for the route layer and the context tool.\<close>

definition firebase_service :: "backend \<Rightarrow> clock \<Rightarrow> service" where
  "firebase_service b k c = snd (gateway b k c)"

section \<open>HTTP route layer (server.js)\<close>

text \<open>\<open>process.env\<close>: the two variables the routes read.\<close>

record env =
  NODE_ENV :: "string option"
  ELEVENLABS_WEBHOOK_SECRET :: "string option"

text \<open>A request after the middleware ran: header values are strings,
  \<open>express.json()\<close> has left an object in \<open>req.body\<close> (\<open>{}\<close> when the request
  had no JSON body), \<open>req.params\<close> holds the path parameters.\<close>

record request =
  headers :: "string \<rightharpoonup> string"
  params :: "string \<rightharpoonup> string"
  body :: jsobj

record response =
  status :: nat
  json :: jsval

definition opt_str :: "string option \<Rightarrow> jsval" where
  "opt_str x = (case x of None \<Rightarrow> JUndefined | Some s \<Rightarrow> JStr s)"

text \<open>\<open>const { userUUID, ...rest } = req.body\<close>: the rest object.\<close>

definition rest_without :: "string list \<Rightarrow> jsobj \<Rightarrow> jsobj" where
  "rest_without ks kvs = filter (\<lambda>(k, v). k \<notin> set ks) kvs"

text \<open>The \<open>verifyToken\<close> middleware: \<open>None\<close> is \<open>next()\<close>, \<open>Some r\<close> the
  response it ends the request with.\<close>

definition verifyToken :: "env \<Rightarrow> request \<Rightarrow> response option" where
  "verifyToken e req =
     (if NODE_ENV e = Some ''development'' then None
      else (case headers req ''authorization'' of
              None \<Rightarrow> Some \<lparr>status = 401, json = JObj [(''error'', JStr ''No auth token provided'')]\<rparr>
            | Some h \<Rightarrow>
                if \<not> starts_with h ''Bearer ''
                then Some \<lparr>status = 401, json = JObj [(''error'', JStr ''No auth token provided'')]\<rparr>
                else None))"

text \<open>The body shared by the eight write handlers: destructure, reject a falsy
  \<open>userUUID\<close> with 400, call the gateway, answer with its result, and turn a throw
  into a 500. \<open>mk\<close> is the gateway method the route calls, \<open>fail\<close> the route's
  error text.\<close>

definition write_handler ::
  "service \<Rightarrow> (jsval \<Rightarrow> jsval \<Rightarrow> gw_call) \<Rightarrow> string \<Rightarrow> request \<Rightarrow> gw_call list \<times> response" where
  "write_handler svc mk fail req =
     (let userUUID = obj_get (body req) ''userUUID'';
          dat = JObj (rest_without [''userUUID''] (body req))
      in if \<not> truthy userUUID
         then ([], \<lparr>status = 400, json = JObj [(''error'', JStr ''userUUID is required'')]\<rparr>)
         else (case svc (mk userUUID dat) of
                 Inr result \<Rightarrow> ([mk userUUID dat], \<lparr>status = 200, json = result\<rparr>)
               | Inl err \<Rightarrow>
                   ([mk userUUID dat],
                    \<lparr>status = 500,
                     json = JObj [(''error'', JStr fail), (''details'', JStr (message err))]\<rparr>)))"

datatype write_path =
    PostConversation
  | PostStage
  | PostProfile
  | PostContext
  | PostSessionStage
  | PostSessionContext
  | PostSessionBreakthrough
  | PostSessionTheme

text \<open>The eight POST routes. Only \<open>/api/memory/conversation\<close> is registered behind
  \<open>verifyToken\<close>; the session routes pass \<open>req.params.sessionId\<close> along.\<close>

fun write_route :: "env \<Rightarrow> service \<Rightarrow> write_path \<Rightarrow> request \<Rightarrow> gw_call list \<times> response" where
  "write_route e svc PostConversation req =
     (case verifyToken e req of
        Some r \<Rightarrow> ([], r)
      | None \<Rightarrow> write_handler svc StoreConversation ''Failed to store conversation'' req)"
| "write_route e svc PostStage req =
     write_handler svc StoreStageProgression ''Failed to store stage'' req"
| "write_route e svc PostProfile req =
     write_handler svc StoreUserProfile ''Failed to store profile'' req"
| "write_route e svc PostContext req =
     write_handler svc StoreUserContext ''Failed to store context'' req"
| "write_route e svc PostSessionStage req =
     write_handler svc (\<lambda>u. StoreSessionStageProgression u (opt_str (params req ''sessionId'')))
       ''Failed to store session stage'' req"
| "write_route e svc PostSessionContext req =
     write_handler svc (\<lambda>u. StoreSessionUserContext u (opt_str (params req ''sessionId'')))
       ''Failed to store session context'' req"
| "write_route e svc PostSessionBreakthrough req =
     write_handler svc (\<lambda>u. StoreBreakthroughMoment u (opt_str (params req ''sessionId'')))
       ''Failed to store breakthrough moment'' req"
| "write_route e svc PostSessionTheme req =
     write_handler svc (\<lambda>u. StoreTherapeuticTheme u (opt_str (params req ''sessionId'')))
       ''Failed to store therapeutic theme'' req"

text \<open>Whether the request reaches the route's handler.\<close>

definition reaches_handler :: "env \<Rightarrow> write_path \<Rightarrow> request \<Rightarrow> bool" where
  "reaches_handler e r req = (r \<noteq> PostConversation \<or> verifyToken e req = None)"

text \<open>\<open>DELETE /api/memory/user/:userUUID\<close>.\<close>

definition delete_user_route :: "service \<Rightarrow> request \<Rightarrow> gw_call list \<times> response" where
  "delete_user_route svc req =
     (let userUUID = opt_str (params req ''userUUID'')
      in case svc (ClearUserData userUUID) of
           Inr result \<Rightarrow>
             ([ClearUserData userUUID],
              \<lparr>status = 200,
               json = JObj (spread [(''success'', JBool True), (''message'', JStr ''User data cleared'')]
                              (own_entries result))\<rparr>)
         | Inl err \<Rightarrow>
             ([ClearUserData userUUID],
              \<lparr>status = 500,
               json = JObj [(''error'', JStr ''Failed to clear user data''),
                            (''details'', JStr (message err))]\<rparr>))"

text \<open>\<open>POST /api/elevenlabs-webhook\<close>. \<open>now\<close> is what
  \<open>new Date().toISOString()\<close> returns when the entry is built.\<close>

definition webhook_rejects :: "env \<Rightarrow> request \<Rightarrow> bool" where
  "webhook_rejects e req =
     (case ELEVENLABS_WEBHOOK_SECRET e of
        None \<Rightarrow> False
      | Some webhookSecret \<Rightarrow>
          if webhookSecret = [] then False
          else (case js_or (opt_str (headers req ''x-elevenlabs-signature''))
                           (opt_str (headers req ''authorization'')) of
                  JStr providedSecret \<Rightarrow>
                    providedSecret = [] \<or> \<not> js_includes providedSecret webhookSecret
                | _ \<Rightarrow> True))"

definition webhook_entry :: "string \<Rightarrow> jsobj \<Rightarrow> jsval" where
  "webhook_entry now b =
     JObj [(''type'', if obj_get b ''message_type'' = JStr ''user_message''
                      then JStr ''user'' else JStr ''assistant''),
           (''content'', obj_get b ''message''),
           (''agent_id'', obj_get b ''agent_id''),
           (''conversation_id'', obj_get b ''conversation_id''),
           (''timestamp'', js_or (obj_get b ''timestamp'') (JStr now)),
           (''metadata'', JObj [(''source'', JStr ''elevenlabs_webhook'')])]"

definition webhook_route :: "env \<Rightarrow> service \<Rightarrow> string \<Rightarrow> request \<Rightarrow> gw_call list \<times> response" where
  "webhook_route e svc now req =
     (if webhook_rejects e req
      then ([], \<lparr>status = 401, json = JObj [(''error'', JStr ''Unauthorized webhook request'')]\<rparr>)
      else
        (let user_id = obj_get (body req) ''user_id'';
             msg = obj_get (body req) ''message'';
             ack = \<lparr>status = 200,
                    json = JObj [(''success'', JBool True), (''message'', JStr ''Webhook processed'')]\<rparr>
         in if truthy user_id \<and> truthy msg
            then (case svc (StoreConversation user_id (webhook_entry now (body req))) of
                    Inr stored \<Rightarrow> ([StoreConversation user_id (webhook_entry now (body req))], ack)
                  | Inl err \<Rightarrow> ([StoreConversation user_id (webhook_entry now (body req))], ack))
            else ([], ack)))"

section \<open>Context Aggregation Tool (ContextTool.js)\<close>

subsection \<open>Language operations the tool uses\<close>

text \<open>Optional chaining \<open>v?.k\<close>: \<open>undefined\<close> when \<open>v\<close> is \<open>undefined\<close> or
  \<open>null\<close>, the property otherwise. For a truthy \<open>v\<close> it is the plain read \<open>v.k\<close>.\<close>

definition opt_get :: "jsval \<Rightarrow> string \<Rightarrow> jsval" where
  "opt_get v k = (case js_get v k of Inr x \<Rightarrow> x | Inl e \<Rightarrow> JUndefined)"

text \<open>\<open>toLowerCase\<close> on the ASCII letters.\<close>

definition to_lower :: "char \<Rightarrow> char" where
  "to_lower c =
     (case map_of (zip ''ABCDEFGHIJKLMNOPQRSTUVWXYZ'' ''abcdefghijklmnopqrstuvwxyz'') c of
        Some l \<Rightarrow> l
      | None \<Rightarrow> c)"

text \<open>\<open>[...new Set(xs)]\<close>: first occurrences; arrays and objects are compared by identity,
  and the entries read from different documents are never the same object.\<close>

fun is_primitive :: "jsval \<Rightarrow> bool" where
  "is_primitive (JArr xs) = False"
| "is_primitive (JObj kvs) = False"
| "is_primitive v = True"

fun set_of_values :: "jsval list \<Rightarrow> jsval list \<Rightarrow> jsval list" where
  "set_of_values seen [] = []"
| "set_of_values seen (x # xs) =
     (if is_primitive x \<and> x \<in> set seen then set_of_values seen xs
      else x # set_of_values (x # seen) xs)"

text \<open>A callback that may throw, applied along an array: the first throw ends the loop.\<close>

fun map_err :: "('a \<Rightarrow> js_error + 'b) \<Rightarrow> 'a list \<Rightarrow> js_error + 'b list" where
  "map_err f [] = Inr []"
| "map_err f (x # xs) = bind (f x) (\<lambda>y. bind (map_err f xs) (\<lambda>ys. Inr (y # ys)))"

text \<open>\<open>v.map(f)\<close>: only an array has the method.\<close>

definition js_array_map :: "jsval \<Rightarrow> (jsval \<Rightarrow> js_error + jsval) \<Rightarrow> js_error + jsval list" where
  "js_array_map v f =
     (case v of JArr xs \<Rightarrow> map_err f xs | _ \<Rightarrow> Inl (TypeError ''map is not a function''))"

subsection \<open>Summaries and instructions\<close>

text \<open>\<open>generateConversationSummary\<close>. The two \<open>filter\<close> calls on \<open>c.type\<close> read the same
  property of the same entries, so one pass over the types stands for both.\<close>

definition generateConversationSummary :: "jsval \<Rightarrow> js_error + jsval" where
  "generateConversationSummary conversations =
     (if \<not> truthy conversations \<or> js_get conversations ''length'' = Inr (JNum 0)
      then Inr (JStr ''No previous conversation history found.'')
      else
        bind (js_array_map conversations (\<lambda>c. js_get c ''type'')) (\<lambda>types.
        bind (js_array_map conversations (\<lambda>c. js_get c ''stage'')) (\<lambda>stage_values.
        bind (js_array_map conversations (\<lambda>c. js_get c ''content'')) (\<lambda>contents.
          (let userMessages = length (filter (\<lambda>t. t = JStr ''user'') types);
               assistantMessages = length (filter (\<lambda>t. t = JStr ''assistant'') types);
               stages = set_of_values [] (filter truthy stage_values);
               summary1 = ''Previous sessions: '' @ show_nat userMessages @ '' user messages, ''
                          @ show_nat assistantMessages @ '' VASA responses.'';
               summary2 = (if stages \<noteq> []
                           then summary1 @ '' CSS stages explored: '' @ array_join '', '' stages @ ''.''
                           else summary1);
               allContent = map to_lower (array_join '' '' (map (\<lambda>c. js_or c (JStr [])) contents));
               themes = (if js_includes allContent ''contradiction'' then [''contradictions/tensions''] else [])
                      @ (if js_includes allContent ''completion'' then [''completion work''] else [])
                      @ (if js_includes allContent ''fragment'' then [''fragmentation''] else [])
                      @ (if js_includes allContent ''integration'' then [''integration''] else [])
           in Inr (JStr (if themes \<noteq> []
                         then summary2 @ '' Recurring themes: '' @ join_with '', '' themes @ ''.''
                         else summary2)))))))"

text \<open>\<open>generateSessionSummary\<close>.\<close>

definition generateSessionSummary :: "jsval \<Rightarrow> js_error + jsval" where
  "generateSessionSummary sessionData =
     bind (js_get sessionData ''stage_progressions'') (\<lambda>sp.
     bind (if js_gt (opt_get sp ''length'') 0
           then bind (js_array_map sp (\<lambda>s. js_get s ''stage'')) (\<lambda>stages.
                  Inr [''CSS stages in this session: '' @ array_join '', '' stages])
           else Inr []) (\<lambda>part1.
     bind (js_get sessionData ''breakthrough_moments'') (\<lambda>bm.
     bind (js_get sessionData ''therapeutic_themes'') (\<lambda>tt.
     bind (if js_gt (opt_get tt ''length'') 0
           then bind (js_array_map tt (\<lambda>t. bind (js_get t ''theme'') (\<lambda>th.
                         if truthy th then Inr th else js_get t ''name''))) (\<lambda>themes.
                  Inr [''Therapeutic themes: '' @ array_join '', '' themes])
           else Inr []) (\<lambda>part3.
     bind (js_get sessionData ''user_context'') (\<lambda>uc.
       (let part2 = (if js_gt (opt_get bm ''length'') 0
                     then [to_string (opt_get bm ''length'') @ '' breakthrough moment(s) identified'']
                     else []);
            part4 = (if js_gt (opt_get uc ''length'') 0
                     then [to_string (opt_get uc ''length'') @ '' context entries recorded'']
                     else []);
            joined = join_with ''. '' (part1 @ part2 @ part3 @ part4)
        in Inr (JStr (if joined = [] then ''New session, no data recorded yet.'' else joined)))))))))"

text \<open>\<open>generateInstructions\<close>, on the \<open>context\<close> object of the result.\<close>

definition generateInstructions :: "jsobj \<Rightarrow> string" where
  "generateInstructions ctx =
     (let conversations = obj_get ctx ''conversations'';
          profile = obj_get ctx ''profile''
      in join_with '' ''
           ((if js_gt (opt_get conversations ''total'') 0
             then [''Reference previous conversation when relevant.'',
                   ''Build upon established symbolic themes and patterns.'']
             else [])
            @ (if truthy (opt_get profile ''symbolic_name'')
               then [''Address user by their symbolic name: ''
                     @ to_string (opt_get profile ''symbolic_name'') @ ''.'']
               else [])
            @ (if truthy (opt_get profile ''current_stage'')
               then [''Continue from CSS stage: '' @ to_string (opt_get profile ''current_stage'') @ ''.'']
               else [])
            @ [''Acknowledge conversation continuity naturally in your response.'']))"

subsection \<open>The four categories\<close>

text \<open>\<open>msg.content?.substring(0, 200) + (msg.content?.length > 200 ? '...' : '')\<close>:
  a missing content prints as \<open>undefined\<close>; a content that is not a string has no
  \<open>substring\<close> method.\<close>

fun content_preview :: "jsval \<Rightarrow> js_error + jsval" where
  "content_preview JUndefined = Inr (JStr ''undefined'')"
| "content_preview JNull = Inr (JStr ''undefined'')"
| "content_preview (JStr s) = Inr (JStr (take 200 s @ (if 200 < length s then ''...'' else [])))"
| "content_preview v = Inl (TypeError ''msg.content?.substring is not a function'')"

definition recent_message :: "jsval \<Rightarrow> js_error + jsval" where
  "recent_message msg =
     bind (js_get msg ''type'') (\<lambda>ty.
     bind (js_get msg ''content'') (\<lambda>c.
     bind (content_preview c) (\<lambda>preview.
     bind (js_get msg ''stage'') (\<lambda>st.
     bind (js_get msg ''timestamp'') (\<lambda>ts.
       Inr (JObj [(''type'', ty), (''content'', preview), (''stage'', st), (''timestamp'', ts)]))))))"

text \<open>The object built from the conversation history; \<open>slice(-5)\<close> keeps the last five
  entries of an array.\<close>

definition conversations_section :: "jsval \<Rightarrow> js_error + jsval" where
  "conversations_section conversations =
     bind (js_get conversations ''length'') (\<lambda>total.
     bind (case conversations of
             JArr xs \<Rightarrow> map_err recent_message (drop (length xs - 5) xs)
           | _ \<Rightarrow> Inl (TypeError ''conversations.slice(...).map is not a function'')) (\<lambda>recent.
     bind (generateConversationSummary conversations) (\<lambda>summary.
       Inr (JObj [(''total'', total), (''recent_messages'', JArr recent), (''summary'', summary)]))))"

definition conversations_block ::
  "service \<Rightarrow> jsval \<Rightarrow> jsval \<Rightarrow> jsval \<Rightarrow> jsobj \<Rightarrow> gw_call list \<times> jsobj" where
  "conversations_block svc user_id limit context_type ctx =
     (if context_type = JStr ''conversation'' \<or> context_type = JStr ''all''
      then ([GetConversationHistory user_id limit],
            obj_set ctx ''conversations''
              (case bind (svc (GetConversationHistory user_id limit)) conversations_section of
                 Inr section \<Rightarrow> section
               | Inl error \<Rightarrow> JObj [(''error'', JStr ''Failed to retrieve conversations'')]))
      else ([], ctx))"

text \<open>The profile object; \<open>profile\<close> is truthy here, so its properties can be read.\<close>

definition profile_section :: "jsval \<Rightarrow> jsval" where
  "profile_section profile =
     JObj [(''symbolic_name'', js_or (opt_get profile ''symbolicName'') (opt_get profile ''name'')),
           (''current_stage'', js_or (opt_get profile ''currentStage'') (opt_get profile ''lastStage'')),
           (''registration_date'', js_or (opt_get profile ''registrationDate'') (opt_get profile ''createdAt'')),
           (''session_count'', js_or (opt_get profile ''sessionCount'') (JNum 0)),
           (''themes'', js_or (opt_get profile ''recurring_themes'') (JArr []))]"

definition profile_block :: "service \<Rightarrow> jsval \<Rightarrow> jsval \<Rightarrow> jsobj \<Rightarrow> gw_call list \<times> jsobj" where
  "profile_block svc user_id context_type ctx =
     (if context_type = JStr ''profile'' \<or> context_type = JStr ''all''
      then ([GetUserProfile user_id],
            (case svc (GetUserProfile user_id) of
               Inr profile \<Rightarrow>
                 if truthy profile then obj_set ctx ''profile'' (profile_section profile) else ctx
             | Inl error \<Rightarrow> obj_set ctx ''profile'' (JObj [(''error'', JStr ''Failed to retrieve profile'')])))
      else ([], ctx))"

text \<open>The stage object; the default stage marker is the circled dot, U+2299, here in its
  UTF-8 bytes.\<close>

definition circled_dot :: string where
  "circled_dot = [CHR 0xE2, CHR 0x8A, CHR 0x99]"

definition stages_section :: "jsobj \<Rightarrow> jsval \<Rightarrow> js_error + jsval" where
  "stages_section ctx stages =
     bind (js_get stages ''length'') (\<lambda>total.
       Inr (JObj [(''current_stage'',
                     js_or (opt_get (obj_get ctx ''profile'') ''current_stage'') (JStr circled_dot)),
                  (''progression_notes'', JStr ''Stage progression tracking active''),
                  (''total_progressions'', total)]))"

definition stages_block ::
  "service \<Rightarrow> jsval \<Rightarrow> jsval \<Rightarrow> jsval \<Rightarrow> jsobj \<Rightarrow> gw_call list \<times> jsobj" where
  "stages_block svc user_id limit context_type ctx =
     (if context_type = JStr ''stages'' \<or> context_type = JStr ''all''
      then ([GetUserStageProgressions user_id limit],
            obj_set ctx ''stages''
              (case bind (svc (GetUserStageProgressions user_id limit)) (stages_section ctx) of
                 Inr section \<Rightarrow> section
               | Inl error \<Rightarrow> JObj [(''error'', JStr ''Failed to retrieve stage data'')]))
      else ([], ctx))"

definition session_section_of :: "jsval \<Rightarrow> jsval \<Rightarrow> js_error + jsval" where
  "session_section_of currentSessionId sessionData =
     bind (js_get sessionData ''stage_progressions'') (\<lambda>sp.
     bind (js_get sessionData ''user_context'') (\<lambda>uc.
     bind (js_get sessionData ''breakthrough_moments'') (\<lambda>bm.
     bind (js_get sessionData ''therapeutic_themes'') (\<lambda>tt.
     bind (generateSessionSummary sessionData) (\<lambda>summary.
       Inr (JObj [(''session_id'', currentSessionId),
                  (''stage_progressions'', js_or sp (JArr [])),
                  (''user_context'', js_or uc (JArr [])),
                  (''breakthrough_moments'', js_or bm (JArr [])),
                  (''therapeutic_themes'', js_or tt (JArr [])),
                  (''summary'', summary)]))))))"

definition session_block ::
  "service \<Rightarrow> jsval \<Rightarrow> jsval \<Rightarrow> jsval \<Rightarrow> jsobj \<Rightarrow> gw_call list \<times> jsobj" where
  "session_block svc user_id currentSessionId context_type ctx =
     (if (context_type = JStr ''session'' \<or> context_type = JStr ''all'') \<and> truthy currentSessionId
      then ([GetSessionData user_id currentSessionId JUndefined],
            obj_set ctx ''session''
              (case bind (svc (GetSessionData user_id currentSessionId JUndefined))
                         (session_section_of currentSessionId) of
                 Inr section \<Rightarrow> section
               | Inl error \<Rightarrow> JObj [(''error'', JStr ''Failed to retrieve session data'')]))
      else ([], ctx))"

subsection \<open>execute\<close>

definition tool_failure :: "string \<Rightarrow> jsval" where
  "tool_failure msg = JObj [(''success'', JBool False), (''error'', JStr msg)]"

text \<open>The part of \<open>execute\<close> after the session id is known. \<open>now\<close> is the reading of
  \<open>new Date().toISOString()\<close> stored in the result.\<close>

definition aggregate ::
  "service \<Rightarrow> string \<Rightarrow> jsval \<Rightarrow> jsval \<Rightarrow> jsval \<Rightarrow> jsval \<Rightarrow> gw_call list \<times> jsval" where
  "aggregate svc now user_id context_type limit currentSessionId =
     (let b1 = conversations_block svc user_id limit context_type [];
          b2 = profile_block svc user_id context_type (snd b1);
          b3 = stages_block svc user_id limit context_type (snd b2);
          b4 = session_block svc user_id currentSessionId context_type (snd b3)
      in (fst b1 @ fst b2 @ fst b3 @ fst b4,
          JObj [(''success'', JBool True),
                (''data'', JObj [(''user_id'', user_id),
                                 (''session_id'', currentSessionId),
                                 (''timestamp'', JStr now),
                                 (''context'', JObj (snd b4))]),
                (''instructions'', JStr (generateInstructions (snd b4)))]))"

text \<open>\<open>execute(parameters)\<close> of a tool built over \<open>firebaseService\<close> (\<open>None\<close> is the
  constructor's default \<open>null\<close>): the calls made, and the object returned. The outer
  \<open>catch\<close> turns a throw of the destructuring or of \<open>getCurrentSessionId\<close> into a
  failure object.\<close>

definition execute :: "service option \<Rightarrow> string \<Rightarrow> jsval \<Rightarrow> gw_call list \<times> jsval" where
  "execute firebaseService now parameters =
     (case js_get parameters ''user_id'' of
        Inl error \<Rightarrow> ([], tool_failure (''Context retrieval failed: '' @ message error))
      | Inr user_id \<Rightarrow>
          (let context_type = default_arg (opt_get parameters ''context_type'') (JStr ''all'');
               session_id = opt_get parameters ''session_id'';
               limit = default_arg (opt_get parameters ''limit'') (JNum 10)
           in if \<not> truthy user_id then ([], tool_failure ''User ID is required'')
              else (case firebaseService of
                      None \<Rightarrow> ([], tool_failure ''Firebase service not available'')
                    | Some svc \<Rightarrow>
                        if truthy session_id
                        then aggregate svc now user_id context_type limit session_id
                        else (case svc (GetCurrentSessionId user_id) of
                                Inl error \<Rightarrow>
                                  ([GetCurrentSessionId user_id],
                                   tool_failure (''Context retrieval failed: '' @ message error))
                              | Inr currentSessionId \<Rightarrow>
                                  (let r = aggregate svc now user_id context_type limit currentSessionId
                                   in (GetCurrentSessionId user_id # fst r, snd r))))))"

text \<open>\<open>POST /api/tools/context\<close> (routes/tools.js): the router's service reference and the
  tool are set together by \<open>setFirebaseService\<close>; the route passes \<open>user_id\<close>,
  \<open>context_type\<close> and \<open>limit\<close> on, and no session id.\<close>

definition tools_context_route :: "service option \<Rightarrow> string \<Rightarrow> request \<Rightarrow> gw_call list \<times> response" where
  "tools_context_route firebaseService now req =
     (case firebaseService of
        None \<Rightarrow> ([], \<lparr>status = 500, json = JObj [(''error'', JStr ''Firebase service not initialized'')]\<rparr>)
      | Some svc \<Rightarrow>
          (let user_id = obj_get (body req) ''user_id'';
               context_type = default_arg (obj_get (body req) ''context_type'') (JStr ''all'');
               limit = default_arg (obj_get (body req) ''limit'') (JNum 10)
           in if \<not> truthy user_id
              then ([], \<lparr>status = 400, json = JObj [(''error'', JStr ''user_id is required'')]\<rparr>)
              else (let r = execute (Some svc) now
                              (JObj [(''user_id'', user_id), (''context_type'', context_type),
                                     (''limit'', limit)])
                    in (fst r, \<lparr>status = 200, json = snd r\<rparr>))))"

section \<open>Notions and sample inputs used in the properties\<close>

fun call_user :: "gw_call \<Rightarrow> jsval" where
  "call_user (StoreConversation u d) = u"
| "call_user (GetConversationHistory u n) = u"
| "call_user (StoreStageProgression u d) = u"
| "call_user (StoreUserProfile u d) = u"
| "call_user (GetUserProfile u) = u"
| "call_user (ClearUserData u) = u"
| "call_user (StoreUserContext u d) = u"
| "call_user (GetUserStageProgressions u n) = u"
| "call_user (GetUserContext u n) = u"
| "call_user (StoreSessionStageProgression u s d) = u"
| "call_user (StoreSessionUserContext u s d) = u"
| "call_user (StoreBreakthroughMoment u s d) = u"
| "call_user (StoreTherapeuticTheme u s d) = u"
| "call_user (GetSessionData u s t) = u"
| "call_user (GetCurrentSessionId u) = u"

definition dev_env :: env where
  "dev_env = \<lparr>NODE_ENV = Some ''development'', ELEVENLABS_WEBHOOK_SECRET = None\<rparr>"

definition prod_env :: env where
  "prod_env = \<lparr>NODE_ENV = Some ''production'', ELEVENLABS_WEBHOOK_SECRET = Some ''s3cret''\<rparr>"

definition ok_service :: service where
  "ok_service c = Inr (JObj [(''success'', JBool True), (''id'', JStr ''doc1'')])"

definition mock_service :: service where
  "mock_service c = Inr (JObj [(''success'', JBool False), (''error'', JStr ''Service unavailable'')])"

definition throwing_service :: service where
  "throwing_service c = Inl (Error ''Firebase service not initialized'')"

text \<open>The header the webhook compares with the secret: \<open>sig || auth\<close>.\<close>

definition selected_header :: "request \<Rightarrow> string option" where
  "selected_header req =
     (case headers req ''x-elevenlabs-signature'' of
        None \<Rightarrow> headers req ''authorization''
      | Some h \<Rightarrow> if h = [] then headers req ''authorization'' else Some h)"

fun is_write :: "gw_call \<Rightarrow> bool" where
  "is_write (StoreConversation u d) = True"
| "is_write (StoreStageProgression u d) = True"
| "is_write (StoreUserProfile u d) = True"
| "is_write (ClearUserData u) = True"
| "is_write (StoreUserContext u d) = True"
| "is_write (StoreSessionStageProgression u s d) = True"
| "is_write (StoreSessionUserContext u s d) = True"
| "is_write (StoreBreakthroughMoment u s d) = True"
| "is_write (StoreTherapeuticTheme u s d) = True"
| "is_write c = False"

fun is_list_read :: "gw_call \<Rightarrow> bool" where
  "is_list_read (GetConversationHistory u n) = True"
| "is_list_read (GetUserStageProgressions u n) = True"
| "is_list_read (GetUserContext u n) = True"
| "is_list_read c = False"

fun is_record_write :: "gw_call \<Rightarrow> bool" where
  "is_record_write (ClearUserData u) = False"
| "is_record_write c = is_write c"

text \<open>The collection or document a call addresses: the segments it hands to
  \<open>collection\<close> or \<open>doc\<close> (for \<open>getSessionData\<close> the session, under which its four
  sub-collections lie).\<close>

fun call_path :: "gw_call \<Rightarrow> path" where
  "call_path (StoreConversation u d) = [JStr ''users'', u, JStr ''conversations'']"
| "call_path (GetConversationHistory u n) = [JStr ''users'', u, JStr ''conversations'']"
| "call_path (StoreStageProgression u d) = [JStr ''users'', u, JStr ''stages'']"
| "call_path (StoreUserProfile u d) = [JStr ''users'', u]"
| "call_path (GetUserProfile u) = [JStr ''users'', u]"
| "call_path (ClearUserData u) = [JStr ''users'', u]"
| "call_path (StoreUserContext u d) = [JStr ''users'', u, JStr ''context'']"
| "call_path (GetUserStageProgressions u n) = [JStr ''users'', u, JStr ''stages'']"
| "call_path (GetUserContext u n) = [JStr ''users'', u, JStr ''context'']"
| "call_path (StoreSessionStageProgression u s d) = [JStr ''users'', u, JStr ''sessions'', s, JStr ''stages'']"
| "call_path (StoreSessionUserContext u s d) = [JStr ''users'', u, JStr ''sessions'', s, JStr ''context'']"
| "call_path (StoreBreakthroughMoment u s d) = [JStr ''users'', u, JStr ''sessions'', s, JStr ''breakthroughs'']"
| "call_path (StoreTherapeuticTheme u s d) = [JStr ''users'', u, JStr ''sessions'', s, JStr ''themes'']"
| "call_path (GetSessionData u s t) = [JStr ''users'', u, JStr ''sessions'', s]"
| "call_path (GetCurrentSessionId u) = []"

text \<open>The same store with every \<open>setDoc\<close>, respectively every batch commit, accepted:
  what a call writes there is the write it attempts.\<close>

definition accepting_setDoc :: "backend \<Rightarrow> backend" where
  "accepting_setDoc b = b\<lparr>setDoc_fault := (\<lambda>p r. None)\<rparr>"

definition accepting_commit :: "backend \<Rightarrow> backend" where
  "accepting_commit b = b\<lparr>commit_fault := (\<lambda>ds. None)\<rparr>"

definition session_names :: "string list" where
  "session_names = [''stages'', ''context'', ''breakthroughs'', ''themes'']"

text \<open>A store that is down: every write, read and commit fails.\<close>

definition down_backend :: backend where
  "down_backend =
     \<lparr>ref_fault = (\<lambda>p. None), auto_id = (\<lambda>p. ''doc1''),
      setDoc_fault = (\<lambda>p r. Some ''unavailable''),
      getDoc_outcome = (\<lambda>p. Inl ''unavailable''),
      getDocs_outcome = (\<lambda>p. Inl ''unavailable''),
      commit_fault = (\<lambda>ds. Some ''unavailable''),
      other_limit = (\<lambda>v. Inl ''invalid limit'')\<rparr>"

definition noon :: clock where
  "noon = \<lparr>timestamp_now = ''2025-01-01T12:00:00.000Z'', createdAt_now = ''2025-01-01T12:00:00.001Z'',
           lastUpdated_now = ''2025-01-01T12:00:00.000Z'',
           session_date_now = ''2025-01-01T12:00:00.000Z'', session_ms_now = 1735732800000\<rparr>"

fun is_timestamped_write :: "gw_call \<Rightarrow> bool" where
  "is_timestamped_write (StoreConversation u d) = True"
| "is_timestamped_write (StoreStageProgression u d) = True"
| "is_timestamped_write (StoreUserContext u d) = True"
| "is_timestamped_write (StoreSessionStageProgression u s d) = True"
| "is_timestamped_write (StoreSessionUserContext u s d) = True"
| "is_timestamped_write (StoreBreakthroughMoment u s d) = True"
| "is_timestamped_write (StoreTherapeuticTheme u s d) = True"
| "is_timestamped_write c = False"

fun call_data :: "gw_call \<Rightarrow> jsval" where
  "call_data (StoreConversation u d) = d"
| "call_data (StoreStageProgression u d) = d"
| "call_data (StoreUserProfile u d) = d"
| "call_data (StoreUserContext u d) = d"
| "call_data (StoreSessionStageProgression u s d) = d"
| "call_data (StoreSessionUserContext u s d) = d"
| "call_data (StoreBreakthroughMoment u s d) = d"
| "call_data (StoreTherapeuticTheme u s d) = d"
| "call_data c = JUndefined"

definition accepts_writes :: "backend \<Rightarrow> bool" where
  "accepts_writes b = ((\<forall>p. ref_fault b p = None) \<and> (\<forall>p r. setDoc_fault b p r = None))"

definition up_backend :: "(path \<Rightarrow> (string \<times> jsobj) list) \<Rightarrow> backend" where
  "up_backend colls =
     \<lparr>ref_fault = (\<lambda>p. None), auto_id = (\<lambda>p. ''doc1''),
      setDoc_fault = (\<lambda>p r. None),
      getDoc_outcome = (\<lambda>p. Inr None),
      getDocs_outcome = (\<lambda>p. Inr (colls p)),
      commit_fault = (\<lambda>ds. None),
      other_limit = (\<lambda>v. Inl ''invalid limit'')\<rparr>"

definition entry_key :: "jsval \<Rightarrow> int list" where
  "entry_key e = fs_order_key (case js_get e ''timestamp'' of Inr v \<Rightarrow> v | Inl err \<Rightarrow> JUndefined)"

definition recent_first :: "jsval list \<Rightarrow> bool" where
  "recent_first es = sorted_wrt (\<lambda>a b. entry_key b \<le> entry_key a) es"

fun call_limit :: "gw_call \<Rightarrow> jsval" where
  "call_limit (GetConversationHistory u n) = default_arg n (JNum 50)"
| "call_limit (GetUserStageProgressions u n) = default_arg n (JNum 50)"
| "call_limit (GetUserContext u n) = default_arg n (JNum 20)"
| "call_limit c = JUndefined"

definition two_stages :: "(string \<times> jsobj) list" where
  "two_stages =
     [(''a1'', [(''stage'', JStr ''mirror''), (''timestamp'', JStr ''2025-01-01T09:00:00.000Z'')]),
      (''b2'', [(''stage'', JStr ''bridge''), (''timestamp'', JStr ''2025-01-02T09:00:00.000Z'')])]"

definition three_messages :: "(string \<times> jsobj) list" where
  "three_messages =
     [(''a1'', [(''content'', JStr ''second''), (''timestamp'', JStr ''2025-01-02T09:00:00.000Z'')]),
      (''b2'', [(''content'', JStr ''first''), (''timestamp'', JStr ''2025-01-01T09:00:00.000Z'')]),
      (''c3'', [(''content'', JStr ''third''), (''timestamp'', JStr ''2025-01-03T09:00:00.000Z'')])]"

text \<open>A store in which one collection cannot be read while all others hold \<open>two_stages\<close>,
  and a store that rejects one path.\<close>

definition unreadable_at :: "path \<Rightarrow> backend" where
  "unreadable_at q =
     (up_backend (\<lambda>p. two_stages))\<lparr>getDocs_outcome := (\<lambda>p. if p = q then Inl ''unavailable'' else Inr two_stages)\<rparr>"

definition no_ref_at :: "path \<Rightarrow> backend" where
  "no_ref_at q =
     (up_backend (\<lambda>p. []))\<lparr>ref_fault := (\<lambda>p. if p = q then Some ''permission-denied'' else None)\<rparr>"

definition commit_down :: backend where
  "commit_down = (up_backend (\<lambda>p. two_stages))\<lparr>commit_fault := (\<lambda>ds. Some ''aborted'')\<rparr>"

fun limit_arg :: "gw_call \<Rightarrow> jsval option" where
  "limit_arg (GetConversationHistory u n) = Some n"
| "limit_arg (GetUserStageProgressions u n) = Some n"
| "limit_arg (GetUserContext u n) = Some n"
| "limit_arg c = None"

fun reads_store :: "gw_call \<Rightarrow> bool" where
  "reads_store (GetConversationHistory u n) = True"
| "reads_store (GetUserProfile u) = True"
| "reads_store (GetUserStageProgressions u n) = True"
| "reads_store (GetUserContext u n) = True"
| "reads_store (GetSessionData u s t) = True"
| "reads_store c = False"


text \<open>A tool result with the \<open>timestamp\<close> field of its \<open>data\<close> object removed.\<close>

definition without_timestamp :: "jsval \<Rightarrow> jsval" where
  "without_timestamp r =
     (case r of
        JObj kvs \<Rightarrow>
          (case obj_get kvs ''data'' of
             JObj d \<Rightarrow> JObj (obj_set kvs ''data'' (JObj (filter (\<lambda>kv. fst kv \<noteq> ''timestamp'') d)))
           | _ \<Rightarrow> r)
      | _ \<Rightarrow> r)"

text \<open>A service whose profile lookup throws while the other lookups answer.\<close>

definition sample_history :: jsval where
  "sample_history =
     JArr [JObj [(''id'', JStr ''c2''), (''type'', JStr ''assistant''),
                 (''content'', JStr ''The Fragment''), (''stage'', JStr ''mirror''),
                 (''timestamp'', JStr ''2025-01-02T09:00:00.000Z'')],
           JObj [(''id'', JStr ''c1''), (''type'', JStr ''user''), (''content'', JStr ''hello''),
                 (''timestamp'', JStr ''2025-01-01T09:00:00.000Z'')]]"

definition sample_session_data :: jsval where
  "sample_session_data =
     JObj [(''stages'', JArr []), (''context'', JArr []), (''breakthroughs'', JArr []),
           (''themes'', JArr [])]"

fun profile_down_service :: service where
  "profile_down_service (GetConversationHistory u n) = Inr sample_history"
| "profile_down_service (GetUserProfile u) = Inl (Error ''profile store unavailable'')"
| "profile_down_service (GetUserStageProgressions u n) =
     Inr (JArr [JObj [(''id'', JStr ''s1''), (''stage'', JStr ''mirror''),
                      (''timestamp'', JStr ''2025-01-02T09:00:00.000Z'')]])"
| "profile_down_service (GetSessionData u s t) = Inr sample_session_data"
| "profile_down_service (GetCurrentSessionId u) = Inr (JStr ''session_2025-01-02_1735808400000'')"
| "profile_down_service c = Inr (JObj [(''success'', JBool False), (''error'', JStr ''Service unavailable'')])"

definition evening :: clock where
  "evening = \<lparr>timestamp_now = ''2025-01-01T20:00:00.000Z'', createdAt_now = ''2025-01-01T20:00:00.001Z'',
              lastUpdated_now = ''2025-01-01T20:00:00.000Z'',
              session_date_now = ''2025-01-01T20:00:00.000Z'', session_ms_now = 1735761600000\<rparr>"

section \<open>Properties\<close>

subsection \<open>Objects\<close>

lemma map_of_obj_set: "map_of (obj_set kvs k v) = (map_of kvs)(k \<mapsto> v)"
  by (induction kvs) (auto simp: fun_upd_twist)

lemma obj_get_obj_set: "obj_get (obj_set kvs k v) k' = (if k' = k then v else obj_get kvs k')"
  by (simp add: obj_get_def map_of_obj_set)

lemma obj_set_fst: "fst ` set (obj_set kvs k v) = insert k (fst ` set kvs)"
proof (induction kvs)
  case Nil show ?case by simp
next
  case (Cons p kvs)
  obtain a b where p: "p = (a, b)" by (cases p)
  show ?case
  proof (cases "a = k")
    case True then show ?thesis by (simp add: p)
  next
    case False then show ?thesis using Cons.IH by (simp add: p insert_commute)
  qed
qed

lemma obj_set_distinct: "distinct (map fst kvs) \<Longrightarrow> distinct (map fst (obj_set kvs k v))"
  by (induction kvs) (auto simp: obj_set_fst)

lemma spread_distinct: "distinct (map fst acc) \<Longrightarrow> distinct (map fst (spread acc src))"
  unfolding spread_def by (induction src arbitrary: acc) (auto simp: obj_set_distinct)

text \<open>A spread lets the later source entry win.\<close>

lemma map_of_spread: "map_of (spread acc src) = map_of acc ++ map_of (rev src)"
  unfolding spread_def
proof (induction src arbitrary: acc)
  case Nil then show ?case by simp
next
  case (Cons p src)
  obtain k v where p: "p = (k, v)" by (cases p)
  show ?case
    by (simp add: p Cons.IH map_of_obj_set map_add_def fun_eq_iff split: option.splits)
qed

lemma map_of_rev_distinct: "distinct (map fst kvs) \<Longrightarrow> map_of (rev kvs) = map_of kvs"
proof (induction kvs)
  case Nil then show ?case by simp
next
  case (Cons p kvs)
  obtain k v where p: "p = (k, v)" by (cases p)
  have none: "map_of kvs k = None" using Cons.prems by (simp add: p map_of_eq_None_iff)
  have "[k \<mapsto> v] ++ map_of kvs = (map_of kvs)(k \<mapsto> v)"
    using none by (auto simp: fun_eq_iff map_add_def split: option.splits)
  then show ?case using Cons by (simp add: p)
qed

lemma map_of_spread_distinct:
  "distinct (map fst src) \<Longrightarrow> map_of (spread acc src) = map_of acc ++ map_of src"
  by (simp add: map_of_spread map_of_rev_distinct)


subsection \<open>Route layer\<close>

text \<open>C5 (amended). For every POST request to a memory write route that reaches the
  route's handler (the conversation route is registered behind \<open>verifyToken\<close>, which
  answers 401 outside development mode when no Bearer token is sent): if the body's
  \<open>userUUID\<close> is missing or falsy, the response is HTTP 400 with the error message
  \<open>userUUID is required\<close> and no gateway call is made; if it is truthy, exactly one
  gateway call is made, for that user.\<close>

theorem write_route_userUUID:
  assumes "reaches_handler e r req"
  shows "(\<not> truthy (obj_get (body req) ''userUUID'') \<longrightarrow>
            write_route e svc r req =
              ([], \<lparr>status = 400, json = JObj [(''error'', JStr ''userUUID is required'')]\<rparr>))
       \<and> (truthy (obj_get (body req) ''userUUID'') \<longrightarrow>
            (\<exists>c. fst (write_route e svc r req) = [c]
                 \<and> call_user c = obj_get (body req) ''userUUID''))"
  using assms
  by (cases r)
     (auto simp: reaches_handler_def write_handler_def Let_def split: sum.splits option.splits)

text \<open>C5, witness: a session-theme request without \<open>userUUID\<close> gets 400 and no
  call; an authorised conversation request with \<open>userUUID\<close> reaches the gateway.\<close>

theorem write_route_userUUID_witness:
  "reaches_handler dev_env PostSessionTheme
     \<lparr>headers = Map.empty, params = [''sessionId'' \<mapsto> ''s1''], body = [(''theme'', JStr ''loss'')]\<rparr>
   \<and> write_route dev_env ok_service PostSessionTheme
        \<lparr>headers = Map.empty, params = [''sessionId'' \<mapsto> ''s1''], body = [(''theme'', JStr ''loss'')]\<rparr>
       = ([], \<lparr>status = 400, json = JObj [(''error'', JStr ''userUUID is required'')]\<rparr>)
   \<and> reaches_handler prod_env PostConversation
        \<lparr>headers = [''authorization'' \<mapsto> ''Bearer t''], params = Map.empty,
         body = [(''userUUID'', JStr ''u1''), (''content'', JStr ''hi'')]\<rparr>
   \<and> fst (write_route prod_env ok_service PostConversation
        \<lparr>headers = [''authorization'' \<mapsto> ''Bearer t''], params = Map.empty,
         body = [(''userUUID'', JStr ''u1''), (''content'', JStr ''hi'')]\<rparr>)
       = [StoreConversation (JStr ''u1'') (JObj [(''content'', JStr ''hi'')])]"
  using write_route_userUUID [of dev_env PostSessionTheme
     "\<lparr>headers = Map.empty, params = [''sessionId'' \<mapsto> ''s1''], body = [(''theme'', JStr ''loss'')]\<rparr>"
     ok_service]
  by (simp add: reaches_handler_def verifyToken_def dev_env_def prod_env_def ok_service_def
        write_handler_def obj_get_def rest_without_def)

text \<open>C5, counterexample to the claim as stated: in production mode a conversation
  request with no Authorization header and no \<open>userUUID\<close> is answered 401, not 400;
  and a body whose \<open>userUUID\<close> is present but empty is answered 400 without a
  gateway call.\<close>

theorem write_route_userUUID_counterexample:
  "map_of (body \<lparr>headers = Map.empty, params = Map.empty, body = [(''content'', JStr ''hi'')]\<rparr>) ''userUUID'' = None
   \<and> write_route prod_env ok_service PostConversation
        \<lparr>headers = Map.empty, params = Map.empty, body = [(''content'', JStr ''hi'')]\<rparr>
       = ([], \<lparr>status = 401, json = JObj [(''error'', JStr ''No auth token provided'')]\<rparr>)
   \<and> map_of (body \<lparr>headers = Map.empty, params = Map.empty, body = [(''userUUID'', JStr [])]\<rparr>) ''userUUID''
       = Some (JStr [])
   \<and> write_route dev_env ok_service PostProfile
        \<lparr>headers = Map.empty, params = Map.empty, body = [(''userUUID'', JStr [])]\<rparr>
       = ([], \<lparr>status = 400, json = JObj [(''error'', JStr ''userUUID is required'')]\<rparr>)"
  by (simp add: verifyToken_def dev_env_def prod_env_def write_handler_def obj_get_def)

text \<open>C9. Whenever \<open>clearUserData\<close> returns an object carrying a \<open>success\<close>
  field (as the gateway and both mock services always do), the DELETE route answers
  HTTP 200 and the \<open>success\<close> field of the response body is the one of the gateway
  result: the spread of the result overrides the route's own \<open>success: true\<close>.\<close>

theorem delete_user_route_success:
  assumes "svc (ClearUserData (opt_str (params req ''userUUID''))) = Inr (JObj r)"
      and "distinct (map fst r)"
      and "map_of r ''success'' = Some v"
  shows "status (snd (delete_user_route svc req)) = 200
       \<and> (\<exists>kvs. json (snd (delete_user_route svc req)) = JObj kvs \<and> map_of kvs ''success'' = Some v)"
  using assms by (simp add: delete_user_route_def Let_def map_of_spread_distinct)

text \<open>C9, witness: a failure result is answered 200 with \<open>success: false\<close>.\<close>

theorem delete_user_route_success_witness:
  "mock_service (ClearUserData (opt_str ([''userUUID'' \<mapsto> ''u1''] ''userUUID'')))
     = Inr (JObj [(''success'', JBool False), (''error'', JStr ''Service unavailable'')])
   \<and> distinct (map fst [(''success'', JBool False), (''error'', JStr ''Service unavailable'')])
   \<and> map_of [(''success'', JBool False), (''error'', JStr ''Service unavailable'')] ''success'' = Some (JBool False)
   \<and> snd (delete_user_route mock_service
        \<lparr>headers = Map.empty, params = [''userUUID'' \<mapsto> ''u1''], body = []\<rparr>)
      = \<lparr>status = 200,
         json = JObj [(''success'', JBool False), (''message'', JStr ''User data cleared''),
                      (''error'', JStr ''Service unavailable'')]\<rparr>"
  using delete_user_route_success [of mock_service
      "\<lparr>headers = Map.empty, params = [''userUUID'' \<mapsto> ''u1''], body = []\<rparr>"
      "[(''success'', JBool False), (''error'', JStr ''Service unavailable'')]" "JBool False"]
  by (simp add: mock_service_def delete_user_route_def spread_def opt_str_def)

text \<open>C6 (amended). With a non-empty webhook secret configured, the webhook answers 401
  exactly when the selected header (the signature header when it is non-empty, the
  authorization header otherwise) is absent or does not contain the secret as a
  substring; a 401 comes with no gateway call; with no secret (or an empty one)
  configured the answer is always 200.\<close>

theorem webhook_secret_check:
  "(ELEVENLABS_WEBHOOK_SECRET e = Some s \<and> s \<noteq> [] \<longrightarrow>
      (status (snd (webhook_route e svc now req)) = 401)
        = (case selected_header req of None \<Rightarrow> True | Some h \<Rightarrow> \<not> js_includes h s))
   \<and> (status (snd (webhook_route e svc now req)) = 401 \<longrightarrow> fst (webhook_route e svc now req) = [])
   \<and> (ELEVENLABS_WEBHOOK_SECRET e = None \<or> ELEVENLABS_WEBHOOK_SECRET e = Some [] \<longrightarrow>
        status (snd (webhook_route e svc now req)) = 200)"
  by (auto simp: webhook_route_def webhook_rejects_def selected_header_def js_or_def opt_str_def
        Let_def split: option.splits sum.splits jsval.splits if_splits)

text \<open>C6, witness.\<close>

theorem webhook_secret_check_witness:
  "ELEVENLABS_WEBHOOK_SECRET prod_env = Some ''s3cret'' \<and> ''s3cret'' \<noteq> []
   \<and> webhook_route prod_env ok_service ''2025-01-01T00:00:00.000Z''
        \<lparr>headers = Map.empty, params = Map.empty,
         body = [(''user_id'', JStr ''u1''), (''message'', JStr ''hi'')]\<rparr>
       = ([], \<lparr>status = 401, json = JObj [(''error'', JStr ''Unauthorized webhook request'')]\<rparr>)
   \<and> status (snd (webhook_route prod_env ok_service ''2025-01-01T00:00:00.000Z''
        \<lparr>headers = [''authorization'' \<mapsto> ''Bearer s3cret''], params = Map.empty,
         body = [(''user_id'', JStr ''u1''), (''message'', JStr ''hi'')]\<rparr>)) = 200
   \<and> ELEVENLABS_WEBHOOK_SECRET dev_env = None
   \<and> status (snd (webhook_route dev_env ok_service ''2025-01-01T00:00:00.000Z''
        \<lparr>headers = Map.empty, params = Map.empty,
         body = [(''user_id'', JStr ''u1''), (''message'', JStr ''hi'')]\<rparr>)) = 200"
  using webhook_secret_check [of prod_env "''s3cret''" ok_service "''2025-01-01T00:00:00.000Z''"
      "\<lparr>headers = Map.empty, params = Map.empty,
         body = [(''user_id'', JStr ''u1''), (''message'', JStr ''hi'')]\<rparr>"]
  by (simp add: prod_env_def dev_env_def ok_service_def webhook_route_def webhook_rejects_def
        js_or_def opt_str_def obj_get_def selected_header_def Let_def)

text \<open>C6, counterexample to the claim as stated: the authorization header contains the
  secret, but a non-empty signature header without it is the one checked, and the
  request is answered 401.\<close>

theorem webhook_secret_check_counterexample:
  "js_includes ''Bearer s3cret'' ''s3cret''
   \<and> ELEVENLABS_WEBHOOK_SECRET prod_env = Some ''s3cret''
   \<and> webhook_route prod_env ok_service ''2025-01-01T00:00:00.000Z''
        \<lparr>headers = [''x-elevenlabs-signature'' \<mapsto> ''t=1,v0=abc'', ''authorization'' \<mapsto> ''Bearer s3cret''],
         params = Map.empty,
         body = [(''user_id'', JStr ''u1''), (''message'', JStr ''hi'')]\<rparr>
       = ([], \<lparr>status = 401, json = JObj [(''error'', JStr ''Unauthorized webhook request'')]\<rparr>)"
  by (simp add: prod_env_def webhook_route_def webhook_rejects_def js_or_def opt_str_def Let_def)

text \<open>C7. Every webhook request that passes the secret check is answered with
  \<open>{success: true, message: 'Webhook processed'}\<close>, whatever \<open>storeConversation\<close>
  does (return a failure result or throw); and when \<open>message\<close> or \<open>user_id\<close> is
  missing or falsy, \<open>storeConversation\<close> is not called.\<close>

theorem webhook_always_acknowledges:
  assumes "\<not> webhook_rejects e req"
  shows "snd (webhook_route e svc now req)
           = \<lparr>status = 200,
              json = JObj [(''success'', JBool True), (''message'', JStr ''Webhook processed'')]\<rparr>
       \<and> (\<not> truthy (obj_get (body req) ''message'') \<or> \<not> truthy (obj_get (body req) ''user_id'')
            \<longrightarrow> fst (webhook_route e svc now req) = [])"
  using assms by (auto simp: webhook_route_def Let_def split: sum.splits)

text \<open>C7, witness: no call without a message; \<open>success: true\<close> with a throwing
  and with a failing gateway.\<close>

theorem webhook_always_acknowledges_witness:
  "\<not> webhook_rejects dev_env
        \<lparr>headers = Map.empty, params = Map.empty, body = [(''user_id'', JStr ''u1'')]\<rparr>
   \<and> webhook_route dev_env ok_service ''2025-01-01T00:00:00.000Z''
        \<lparr>headers = Map.empty, params = Map.empty, body = [(''user_id'', JStr ''u1'')]\<rparr>
       = ([], \<lparr>status = 200,
              json = JObj [(''success'', JBool True), (''message'', JStr ''Webhook processed'')]\<rparr>)
   \<and> webhook_route dev_env throwing_service ''2025-01-01T00:00:00.000Z''
        \<lparr>headers = Map.empty, params = Map.empty,
         body = [(''user_id'', JStr ''u1''), (''message'', JStr ''hi''), (''message_type'', JStr ''user_message'')]\<rparr>
       = ([StoreConversation (JStr ''u1'')
             (JObj [(''type'', JStr ''user''), (''content'', JStr ''hi''), (''agent_id'', JUndefined),
                    (''conversation_id'', JUndefined),
                    (''timestamp'', JStr ''2025-01-01T00:00:00.000Z''),
                    (''metadata'', JObj [(''source'', JStr ''elevenlabs_webhook'')])])],
          \<lparr>status = 200,
           json = JObj [(''success'', JBool True), (''message'', JStr ''Webhook processed'')]\<rparr>)
   \<and> snd (webhook_route dev_env mock_service ''2025-01-01T00:00:00.000Z''
        \<lparr>headers = Map.empty, params = Map.empty,
         body = [(''user_id'', JStr ''u1''), (''message'', JStr ''hi'')]\<rparr>)
       = \<lparr>status = 200,
          json = JObj [(''success'', JBool True), (''message'', JStr ''Webhook processed'')]\<rparr>"
  using webhook_always_acknowledges [of dev_env
      "\<lparr>headers = Map.empty, params = Map.empty, body = [(''user_id'', JStr ''u1'')]\<rparr>"
      ok_service "''2025-01-01T00:00:00.000Z''"]
  by (simp add: dev_env_def ok_service_def throwing_service_def mock_service_def webhook_route_def
        webhook_rejects_def webhook_entry_def js_or_def obj_get_def Let_def)

subsection \<open>Storage Gateway\<close>

lemma try_catch_Inr: "\<exists>v. try_catch m (\<lambda>e. Inr (h e)) = Inr v"
  by (cases m) (simp_all add: try_catch_def)

lemma try_catch_isl: "isl m \<Longrightarrow> try_catch m (\<lambda>e. Inr v) = Inr v"
  by (cases m) (simp_all add: try_catch_def)

lemma bind_isl_first: "isl m \<Longrightarrow> isl (bind m f)"
  by (cases m) (simp_all add: bind_def)

lemma bind_isl_later: "(\<And>x. isl (f x)) \<Longrightarrow> isl (bind m f)"
  by (cases m) (simp_all add: bind_def)

lemma make_ref_getDocs_isl:
  "ref_fault b p \<noteq> None \<or> isl (getDocs_outcome b p) \<Longrightarrow> isl (bind (make_ref b p) (\<lambda>ref. bind (getDocs b ref) (f ref)))"
  by (cases "getDocs_outcome b p") (auto simp: make_ref_def getDocs_def bind_def split: option.splits)

lemma store_record_shape:
  "\<exists>kvs. snd (store_record b coll extra t1 t2 d) = Inr (JObj kvs)
       \<and> (obj_get kvs ''success'' = JBool True
          \<or> (\<exists>m. kvs = [(''success'', JBool False), (''error'', JStr m)]))"
  by (auto simp: store_record_def store_record_body_def try_catch_def Let_def success_id_def
        failure_def obj_get_def split: sum.splits option.splits)

lemma storeUserProfile_shape:
  "\<exists>kvs. snd (storeUserProfile b t u d) = Inr (JObj kvs)
       \<and> (obj_get kvs ''success'' = JBool True
          \<or> (\<exists>m. kvs = [(''success'', JBool False), (''error'', JStr m)]))"
  by (auto simp: storeUserProfile_def storeUserProfile_body_def try_catch_def Let_def
        failure_def obj_get_def split: sum.splits option.splits)

lemma clearUserData_shape:
  "\<exists>kvs. snd (clearUserData b u) = Inr (JObj kvs)
       \<and> (obj_get kvs ''success'' = JBool True
          \<or> (\<exists>m. kvs = [(''success'', JBool False), (''error'', JStr m)]))"
  by (auto simp: clearUserData_def clearUserData_body_def try_catch_def Let_def
        failure_def obj_get_def split: sum.splits option.splits)

lemma write_shape:
  "is_write c \<Longrightarrow>
   \<exists>kvs. snd (gateway b k c) = Inr (JObj kvs)
       \<and> (obj_get kvs ''success'' = JBool True
          \<or> (\<exists>m. kvs = [(''success'', JBool False), (''error'', JStr m)]))"
  by (cases c)
     (simp_all add: storeConversation_def storeStageProgression_def storeUserContext_def
        storeSessionStageProgression_def storeSessionUserContext_def storeBreakthroughMoment_def
        storeTherapeuticTheme_def store_record_shape storeUserProfile_shape clearUserData_shape)

lemma gateway_returns: "\<exists>v. snd (gateway b k c) = Inr v"
proof (cases "is_write c")
  case True
  then show ?thesis using write_shape[of c b k] by blast
next
  case False
  then show ?thesis
    by (cases c)
       (simp_all add: getConversationHistory_def getUserStageProgressions_def getUserContext_def
          recent_entries_def getUserProfile_def getSessionData_def getCurrentSessionId_def
          Let_def try_catch_Inr)
qed

text \<open>Failure of the reference a write starts from.\<close>

lemma store_record_ref_fault:
  "ref_fault b coll = Some m \<Longrightarrow>
   store_record b coll extra t1 t2 d
     = ([], Inr (JObj [(''success'', JBool False), (''error'', JStr m)]))"
  by (simp add: store_record_def store_record_body_def make_ref_def try_catch_def failure_def)

lemma storeUserProfile_ref_fault:
  "ref_fault b [JStr ''users'', u] = Some m \<Longrightarrow>
   storeUserProfile b t u d
     = ([], Inr (JObj [(''success'', JBool False), (''error'', JStr m)]))"
  by (simp add: storeUserProfile_def storeUserProfile_body_def make_ref_def try_catch_def failure_def)

lemma clearUserData_ref_fault:
  "ref_fault b [JStr ''users'', u] = Some m \<Longrightarrow>
   clearUserData b u = ([], Inr (JObj [(''success'', JBool False), (''error'', JStr m)]))"
  by (simp add: clearUserData_def clearUserData_body_def make_ref_def bind_def try_catch_def
        failure_def)

lemma write_ref_fault:
  assumes "is_write c" and "ref_fault b (call_path c) = Some m"
  shows "gateway b k c = ([], Inr (JObj [(''success'', JBool False), (''error'', JStr m)]))"
  using assms
  by (cases c)
     (simp_all add: storeConversation_def storeStageProgression_def storeUserContext_def
        storeSessionStageProgression_def storeSessionUserContext_def storeBreakthroughMoment_def
        storeTherapeuticTheme_def store_record_ref_fault storeUserProfile_ref_fault
        clearUserData_ref_fault)

text \<open>Failure of the \<open>setDoc\<close> a write attempts.\<close>

lemma store_record_setDoc_fault:
  assumes "fst (store_record (accepting_setDoc b) coll extra t1 t2 d) = [SetDoc p r mf]"
      and "setDoc_fault b p r = Some m"
  shows "store_record b coll extra t1 t2 d
           = ([], Inr (JObj [(''success'', JBool False), (''error'', JStr m)]))"
  using assms
  by (auto simp: accepting_setDoc_def store_record_def store_record_body_def make_ref_def
        try_catch_def failure_def Let_def split: option.splits sum.splits)

lemma storeUserProfile_setDoc_fault:
  assumes "fst (storeUserProfile (accepting_setDoc b) t u d) = [SetDoc p r mf]"
      and "setDoc_fault b p r = Some m"
  shows "storeUserProfile b t u d
           = ([], Inr (JObj [(''success'', JBool False), (''error'', JStr m)]))"
  using assms
  by (auto simp: accepting_setDoc_def storeUserProfile_def storeUserProfile_body_def make_ref_def
        try_catch_def failure_def Let_def split: option.splits sum.splits)

lemma write_setDoc_fault:
  assumes "is_record_write c"
      and "fst (gateway (accepting_setDoc b) k c) = [SetDoc p r mf]"
      and "setDoc_fault b p r = Some m"
  shows "gateway b k c = ([], Inr (JObj [(''success'', JBool False), (''error'', JStr m)]))"
proof (cases c)
  case (StoreConversation u d)
  then show ?thesis using assms(2,3)
    by (simp add: storeConversation_def store_record_setDoc_fault[of b _ _ _ _ _ p r mf m])
next
  case (StoreStageProgression u d)
  then show ?thesis using assms(2,3)
    by (simp add: storeStageProgression_def store_record_setDoc_fault[of b _ _ _ _ _ p r mf m])
next
  case (StoreUserProfile u d)
  then show ?thesis using assms(2,3)
    by (simp add: storeUserProfile_setDoc_fault[of b _ _ _ p r mf m])
next
  case (StoreUserContext u d)
  then show ?thesis using assms(2,3)
    by (simp add: storeUserContext_def store_record_setDoc_fault[of b _ _ _ _ _ p r mf m])
next
  case (StoreSessionStageProgression u s d)
  then show ?thesis using assms(2,3)
    by (simp add: storeSessionStageProgression_def store_record_setDoc_fault[of b _ _ _ _ _ p r mf m])
next
  case (StoreSessionUserContext u s d)
  then show ?thesis using assms(2,3)
    by (simp add: storeSessionUserContext_def store_record_setDoc_fault[of b _ _ _ _ _ p r mf m])
next
  case (StoreBreakthroughMoment u s d)
  then show ?thesis using assms(2,3)
    by (simp add: storeBreakthroughMoment_def store_record_setDoc_fault[of b _ _ _ _ _ p r mf m])
next
  case (StoreTherapeuticTheme u s d)
  then show ?thesis using assms(2,3)
    by (simp add: storeTherapeuticTheme_def store_record_setDoc_fault[of b _ _ _ _ _ p r mf m])
qed (use assms(1) in simp_all)

text \<open>Data that is \<open>undefined\<close> or \<open>null\<close>: reading its \<open>timestamp\<close> throws inside the
  \<open>try\<close>.\<close>

lemma store_record_no_data:
  "d = JUndefined \<or> d = JNull \<Longrightarrow>
   \<exists>m. store_record b coll extra t1 t2 d
          = ([], Inr (JObj [(''success'', JBool False), (''error'', JStr m)]))"
  by (auto simp: store_record_def store_record_body_def make_ref_def try_catch_def failure_def
        split: option.splits)

lemma write_no_data:
  assumes "is_timestamped_write c" and "call_data c = JUndefined \<or> call_data c = JNull"
  shows "\<exists>m. gateway b k c = ([], Inr (JObj [(''success'', JBool False), (''error'', JStr m)]))"
  using assms
  by (cases c)
     (simp_all add: storeConversation_def storeStageProgression_def storeUserContext_def
        storeSessionStageProgression_def storeSessionUserContext_def storeBreakthroughMoment_def
        storeTherapeuticTheme_def store_record_no_data)

text \<open>Failures inside \<open>clearUserData\<close>.\<close>

lemma clearUserData_isl:
  assumes "isl (bind (make_ref b [JStr ''users'', u]) (\<lambda>userRef.
           bind (make_ref b [JStr ''users'', u, JStr ''conversations'']) (\<lambda>conversationsRef.
           bind (getDocs b conversationsRef) (\<lambda>conversations.
           bind (make_ref b [JStr ''users'', u, JStr ''stages'']) (\<lambda>stagesRef.
           bind (getDocs b stagesRef) (\<lambda>stages.
             Inr (userRef # map (\<lambda>d. conversationsRef @ [JStr (fst d)]) conversations
                          @ map (\<lambda>d. stagesRef @ [JStr (fst d)]) stages)))))))"
  shows "\<exists>m. clearUserData b u = ([], Inr (JObj [(''success'', JBool False), (''error'', JStr m)]))"
  using assms
  by (auto simp: clearUserData_def clearUserData_body_def try_catch_def failure_def isl_def
        split: sum.splits)

lemma clearUserData_read_fault:
  assumes "p = [JStr ''users'', u, JStr ''conversations''] \<or> p = [JStr ''users'', u, JStr ''stages'']"
      and "ref_fault b p \<noteq> None \<or> isl (getDocs_outcome b p)"
  shows "\<exists>m. clearUserData b u = ([], Inr (JObj [(''success'', JBool False), (''error'', JStr m)]))"
proof -
  consider (conversations) "p = [JStr ''users'', u, JStr ''conversations'']"
    | (stages) "p = [JStr ''users'', u, JStr ''stages'']"
    using assms(1) by blast
  then have "isl (bind (make_ref b [JStr ''users'', u]) (\<lambda>userRef.
           bind (make_ref b [JStr ''users'', u, JStr ''conversations'']) (\<lambda>conversationsRef.
           bind (getDocs b conversationsRef) (\<lambda>conversations.
           bind (make_ref b [JStr ''users'', u, JStr ''stages'']) (\<lambda>stagesRef.
           bind (getDocs b stagesRef) (\<lambda>stages.
             Inr (userRef # map (\<lambda>d. conversationsRef @ [JStr (fst d)]) conversations
                          @ map (\<lambda>d. stagesRef @ [JStr (fst d)]) stages)))))))"
  proof cases
    case conversations
    show ?thesis
      by (rule bind_isl_later, rule make_ref_getDocs_isl) (use assms(2) conversations in simp)
  next
    case stages
    show ?thesis
      by (rule bind_isl_later, rule bind_isl_later, rule bind_isl_later,
          rule make_ref_getDocs_isl) (use assms(2) stages in simp)
  qed
  then show ?thesis by (rule clearUserData_isl)
qed

lemma clearUserData_commit_fault:
  assumes "fst (clearUserData (accepting_commit b) u) = [BatchDelete ds]"
      and "commit_fault b ds = Some m"
  shows "clearUserData b u = ([], Inr (JObj [(''success'', JBool False), (''error'', JStr m)]))"
  using assms
  by (auto simp: accepting_commit_def clearUserData_def clearUserData_body_def make_ref_def
        getDocs_def bind_def try_catch_def failure_def split: option.splits sum.splits)

text \<open>Failures inside the reads.\<close>

lemma recent_entries_fault:
  assumes "ref_fault b p \<noteq> None \<or> isl (fs_limit b lim) \<or> isl (getDocs_outcome b p)"
  shows "recent_entries b p lim = Inr (JArr [])"
proof -
  have "isl (bind (make_ref b p) (\<lambda>ref. bind (fs_limit b lim) (\<lambda>n. bind (getDocs b ref) (\<lambda>ds.
              Inr (JArr (map entry_of (query_recent n ds)))))))"
    using assms
    by (cases "getDocs_outcome b p"; cases "fs_limit b lim")
       (auto simp: make_ref_def getDocs_def bind_def split: option.splits)
  then show ?thesis by (simp add: recent_entries_def try_catch_isl)
qed

lemma list_read_fault:
  assumes "is_list_read c"
      and "ref_fault b (call_path c) \<noteq> None \<or> isl (fs_limit b (call_limit c))
           \<or> isl (getDocs_outcome b (call_path c))"
  shows "gateway b k c = ([], Inr (JArr []))"
  using assms
  by (cases c)
     (simp_all add: getConversationHistory_def getUserStageProgressions_def getUserContext_def
        recent_entries_fault)

lemma getUserProfile_fault:
  assumes "ref_fault b [JStr ''users'', u] \<noteq> None \<or> isl (getDoc_outcome b [JStr ''users'', u])"
  shows "getUserProfile b u = Inr JNull"
  using assms
  by (cases "getDoc_outcome b [JStr ''users'', u]")
     (auto simp: getUserProfile_def make_ref_def bind_def try_catch_def split: option.splits)

lemma session_section_fault:
  assumes "t = JStr ''all'' \<or> t = JStr name"
      and "ref_fault b [JStr ''users'', u, JStr ''sessions'', s, JStr name] \<noteq> None
           \<or> isl (getDocs_outcome b [JStr ''users'', u, JStr ''sessions'', s, JStr name])"
  shows "isl (session_section b u s t name acc)"
  using assms make_ref_getDocs_isl[of b "[JStr ''users'', u, JStr ''sessions'', s, JStr name]"]
  by (auto simp: session_section_def)

lemma getSessionData_fault:
  assumes "name \<in> set session_names"
      and "default_arg t (JStr ''all'') = JStr ''all'' \<or> default_arg t (JStr ''all'') = JStr name"
      and "ref_fault b [JStr ''users'', u, JStr ''sessions'', s, JStr name] \<noteq> None
           \<or> isl (getDocs_outcome b [JStr ''users'', u, JStr ''sessions'', s, JStr name])"
  shows "getSessionData b u s t = Inr (JObj [])"
proof -
  let ?t = "default_arg t (JStr ''all'')"
  have f: "isl (session_section b u s ?t name acc)" for acc
    using session_section_fault[OF assms(2,3)] .
  consider "name = ''stages''" | "name = ''context''" | "name = ''breakthroughs''" | "name = ''themes''"
    using assms(1) by (auto simp: session_names_def)
  then have "isl (bind (session_section b u s ?t ''stages'' []) (\<lambda>s1.
         bind (session_section b u s ?t ''context'' s1) (\<lambda>s2.
         bind (session_section b u s ?t ''breakthroughs'' s2) (\<lambda>s3.
         bind (session_section b u s ?t ''themes'' s3) (\<lambda>s4.
           Inr (JObj s4))))))"
  proof cases
    case 1
    show ?thesis by (rule bind_isl_first) (use f 1 in simp)
  next
    case 2
    show ?thesis by (rule bind_isl_later, rule bind_isl_first) (use f 2 in simp)
  next
    case 3
    show ?thesis
      by (rule bind_isl_later, rule bind_isl_later, rule bind_isl_first) (use f 3 in simp)
  next
    case 4
    show ?thesis
      by (rule bind_isl_later, rule bind_isl_later, rule bind_isl_later, rule bind_isl_first)
         (use f 4 in simp)
  qed
  then show ?thesis by (simp add: getSessionData_def Let_def try_catch_isl)
qed

text \<open>C1. No Storage Gateway method propagates an exception: for every backend behaviour,
  clock and call, the method returns a value, and a write method returns an object whose
  \<open>success\<close> is \<open>true\<close>, or exactly \<open>{success: false, error: message}\<close>. When one
  underlying call fails, whatever the others do:
  \<^item> a write whose reference cannot be built returns the failure object with that
    error's message and leaves the store untouched;
  \<^item> a record write whose \<open>setDoc\<close> is rejected (the one it performs when \<open>setDoc\<close> is
    accepted) returns the failure object with that message and leaves the store untouched;
  \<^item> a conversation, stage, context or session write whose data is \<open>undefined\<close> or
    \<open>null\<close> returns a failure object;
  \<^item> \<open>clearUserData\<close> returns a failure object when the conversations or the stages
    collection cannot be referenced or read, and the failure object with the commit's
    message when its batch is rejected; the store is untouched;
  \<^item> a list read returns \<open>[]\<close> when its collection cannot be referenced or read, or
    \<open>limit\<close> throws;
  \<^item> \<open>getUserProfile\<close> returns \<open>null\<close> when the document cannot be referenced or read;
  \<^item> \<open>getSessionData\<close> returns \<open>{}\<close> when any one of the sub-collections it was asked
    for cannot be referenced or read, also when the others were read.\<close>

theorem gateway_never_throws:
  "(\<exists>v. snd (gateway b k c) = Inr v)
   \<and> (is_write c \<longrightarrow>
        (\<exists>kvs. snd (gateway b k c) = Inr (JObj kvs)
           \<and> (obj_get kvs ''success'' = JBool True
              \<or> (\<exists>m. kvs = [(''success'', JBool False), (''error'', JStr m)]))))
   \<and> (is_write c \<and> ref_fault b (call_path c) = Some m \<longrightarrow>
        gateway b k c = ([], Inr (JObj [(''success'', JBool False), (''error'', JStr m)])))
   \<and> (is_record_write c \<and> fst (gateway (accepting_setDoc b) k c) = [SetDoc p r mf]
        \<and> setDoc_fault b p r = Some m \<longrightarrow>
        gateway b k c = ([], Inr (JObj [(''success'', JBool False), (''error'', JStr m)])))
   \<and> (is_timestamped_write c \<and> (call_data c = JUndefined \<or> call_data c = JNull) \<longrightarrow>
        (\<exists>m'. gateway b k c = ([], Inr (JObj [(''success'', JBool False), (''error'', JStr m')]))))
   \<and> (c = ClearUserData u
        \<and> (q = [JStr ''users'', u, JStr ''conversations''] \<or> q = [JStr ''users'', u, JStr ''stages''])
        \<and> (ref_fault b q \<noteq> None \<or> isl (getDocs_outcome b q)) \<longrightarrow>
        (\<exists>m'. gateway b k c = ([], Inr (JObj [(''success'', JBool False), (''error'', JStr m')]))))
   \<and> (c = ClearUserData u \<and> fst (gateway (accepting_commit b) k c) = [BatchDelete ds]
        \<and> commit_fault b ds = Some m \<longrightarrow>
        gateway b k c = ([], Inr (JObj [(''success'', JBool False), (''error'', JStr m)])))
   \<and> (is_list_read c
        \<and> (ref_fault b (call_path c) \<noteq> None \<or> isl (fs_limit b (call_limit c))
           \<or> isl (getDocs_outcome b (call_path c))) \<longrightarrow>
        gateway b k c = ([], Inr (JArr [])))
   \<and> (c = GetUserProfile u
        \<and> (ref_fault b (call_path c) \<noteq> None \<or> isl (getDoc_outcome b (call_path c))) \<longrightarrow>
        gateway b k c = ([], Inr JNull))
   \<and> (c = GetSessionData u s t \<and> name \<in> set session_names
        \<and> (default_arg t (JStr ''all'') = JStr ''all'' \<or> default_arg t (JStr ''all'') = JStr name)
        \<and> (ref_fault b (call_path c @ [JStr name]) \<noteq> None
           \<or> isl (getDocs_outcome b (call_path c @ [JStr name]))) \<longrightarrow>
        gateway b k c = ([], Inr (JObj [])))"
proof (intro conjI impI)
  show "\<exists>v. snd (gateway b k c) = Inr v" by (rule gateway_returns)
next
  assume "is_write c"
  then show "\<exists>kvs. snd (gateway b k c) = Inr (JObj kvs)
           \<and> (obj_get kvs ''success'' = JBool True
              \<or> (\<exists>m. kvs = [(''success'', JBool False), (''error'', JStr m)]))"
    by (rule write_shape)
next
  assume "is_write c \<and> ref_fault b (call_path c) = Some m"
  then show "gateway b k c = ([], Inr (JObj [(''success'', JBool False), (''error'', JStr m)]))"
    using write_ref_fault[of c b m k] by simp
next
  assume "is_record_write c \<and> fst (gateway (accepting_setDoc b) k c) = [SetDoc p r mf]
        \<and> setDoc_fault b p r = Some m"
  then show "gateway b k c = ([], Inr (JObj [(''success'', JBool False), (''error'', JStr m)]))"
    using write_setDoc_fault[of c b k p r mf m] by simp
next
  assume "is_timestamped_write c \<and> (call_data c = JUndefined \<or> call_data c = JNull)"
  then show "\<exists>m'. gateway b k c = ([], Inr (JObj [(''success'', JBool False), (''error'', JStr m')]))"
    using write_no_data[of c b k] by simp
next
  assume "c = ClearUserData u
        \<and> (q = [JStr ''users'', u, JStr ''conversations''] \<or> q = [JStr ''users'', u, JStr ''stages''])
        \<and> (ref_fault b q \<noteq> None \<or> isl (getDocs_outcome b q))"
  then show "\<exists>m'. gateway b k c = ([], Inr (JObj [(''success'', JBool False), (''error'', JStr m')]))"
    using clearUserData_read_fault[of q u b] by auto
next
  assume "c = ClearUserData u \<and> fst (gateway (accepting_commit b) k c) = [BatchDelete ds]
        \<and> commit_fault b ds = Some m"
  then have c: "c = ClearUserData u"
    and "fst (clearUserData (accepting_commit b) u) = [BatchDelete ds]" "commit_fault b ds = Some m"
    by auto
  then have "clearUserData b u = ([], Inr (JObj [(''success'', JBool False), (''error'', JStr m)]))"
    using clearUserData_commit_fault[of b u ds m] by blast
  then show "gateway b k c = ([], Inr (JObj [(''success'', JBool False), (''error'', JStr m)]))"
    by (simp add: c)
next
  assume "is_list_read c
        \<and> (ref_fault b (call_path c) \<noteq> None \<or> isl (fs_limit b (call_limit c))
           \<or> isl (getDocs_outcome b (call_path c)))"
  then show "gateway b k c = ([], Inr (JArr []))"
    using list_read_fault[of c b k] by blast
next
  assume "c = GetUserProfile u
        \<and> (ref_fault b (call_path c) \<noteq> None \<or> isl (getDoc_outcome b (call_path c)))"
  then show "gateway b k c = ([], Inr JNull)"
    using getUserProfile_fault[of b u] by auto
next
  assume "c = GetSessionData u s t \<and> name \<in> set session_names
        \<and> (default_arg t (JStr ''all'') = JStr ''all'' \<or> default_arg t (JStr ''all'') = JStr name)
        \<and> (ref_fault b (call_path c @ [JStr name]) \<noteq> None
           \<or> isl (getDocs_outcome b (call_path c @ [JStr name])))"
  then show "gateway b k c = ([], Inr (JObj []))"
    using getSessionData_fault[of name t b u s] by auto
qed

text \<open>C1, witness: a store that rejects the conversations reference; a store that is
  down, where the attempted \<open>setDoc\<close> is rejected; \<open>undefined\<close> as the data; a rejected
  batch commit; an unreadable collection and a limit of 0 for a list read; and a session
  read in which only the last of the four sub-collections fails.\<close>

theorem gateway_never_throws_witness:
  "is_write (StoreConversation (JStr ''u1'') (JObj [(''content'', JStr ''hi'')]))
   \<and> ref_fault (no_ref_at [JStr ''users'', JStr ''u1'', JStr ''conversations''])
        (call_path (StoreConversation (JStr ''u1'') (JObj [(''content'', JStr ''hi'')])))
       = Some ''permission-denied''
   \<and> gateway (no_ref_at [JStr ''users'', JStr ''u1'', JStr ''conversations'']) noon
        (StoreConversation (JStr ''u1'') (JObj [(''content'', JStr ''hi'')]))
       = ([], Inr (JObj [(''success'', JBool False), (''error'', JStr ''permission-denied'')]))
   \<and> fst (gateway (accepting_setDoc down_backend) noon
        (StoreConversation (JStr ''u1'') (JObj [(''content'', JStr ''hi'')])))
       = [SetDoc [JStr ''users'', JStr ''u1'', JStr ''conversations'', JStr ''doc1'']
            [(''content'', JStr ''hi''), (''timestamp'', JStr ''2025-01-01T12:00:00.000Z''),
             (''createdAt'', JStr ''2025-01-01T12:00:00.001Z'')] False]
   \<and> gateway down_backend noon (StoreConversation (JStr ''u1'') (JObj [(''content'', JStr ''hi'')]))
       = ([], Inr (JObj [(''success'', JBool False), (''error'', JStr ''unavailable'')]))
   \<and> gateway (up_backend (\<lambda>p. [])) noon (StoreConversation (JStr ''u1'') JUndefined)
       = ([], Inr (JObj [(''success'', JBool False),
            (''error'', JStr (''Cannot read properties of undefined (reading ''
                              @ [CHR 0x27] @ ''timestamp'' @ [CHR 0x27] @ '')''))]))
   \<and> gateway down_backend noon (ClearUserData (JStr ''u1''))
       = ([], Inr (JObj [(''success'', JBool False), (''error'', JStr ''unavailable'')]))
   \<and> fst (gateway (accepting_commit commit_down) noon (ClearUserData (JStr ''u1'')))
       = [BatchDelete [[JStr ''users'', JStr ''u1''],
            [JStr ''users'', JStr ''u1'', JStr ''conversations'', JStr ''a1''],
            [JStr ''users'', JStr ''u1'', JStr ''conversations'', JStr ''b2''],
            [JStr ''users'', JStr ''u1'', JStr ''stages'', JStr ''a1''],
            [JStr ''users'', JStr ''u1'', JStr ''stages'', JStr ''b2'']]]
   \<and> gateway commit_down noon (ClearUserData (JStr ''u1''))
       = ([], Inr (JObj [(''success'', JBool False), (''error'', JStr ''aborted'')]))
   \<and> gateway (unreadable_at [JStr ''users'', JStr ''u1'', JStr ''conversations'']) noon
        (GetConversationHistory (JStr ''u1'') (JNum 5)) = ([], Inr (JArr []))
   \<and> gateway (up_backend (\<lambda>p. two_stages)) noon (GetConversationHistory (JStr ''u1'') (JNum 0))
       = ([], Inr (JArr []))
   \<and> gateway down_backend noon (GetUserProfile (JStr ''u1'')) = ([], Inr JNull)
   \<and> ''themes'' \<in> set session_names
   \<and> gateway (unreadable_at [JStr ''users'', JStr ''u1'', JStr ''sessions'', JStr ''s1'', JStr ''themes''])
        noon (GetSessionData (JStr ''u1'') (JStr ''s1'') JUndefined) = ([], Inr (JObj []))"
  using gateway_never_throws [of down_backend noon
          "StoreConversation (JStr ''u1'') (JObj [(''content'', JStr ''hi'')])"
          "''unavailable''"
          "[JStr ''users'', JStr ''u1'', JStr ''conversations'', JStr ''doc1'']"
          "[(''content'', JStr ''hi''), (''timestamp'', JStr ''2025-01-01T12:00:00.000Z''),
            (''createdAt'', JStr ''2025-01-01T12:00:00.001Z'')]" False]
  by (simp add: down_backend_def up_backend_def no_ref_at_def unreadable_at_def commit_down_def
        accepting_setDoc_def accepting_commit_def session_names_def two_stages_def
        noon_def storeConversation_def store_record_def
        store_record_body_def make_ref_def try_catch_def failure_def clearUserData_def
        clearUserData_body_def bind_def getDocs_def getConversationHistory_def recent_entries_def
        fs_limit_def default_arg_def getUserProfile_def getSessionData_def session_section_def
        Let_def spread_def js_or_def obj_get_def entry_of_def data_of_def)

lemma store_record_effect:
  assumes "SetDoc p r m \<in> set (fst (store_record b coll extra t1 t2 d))"
  shows "(\<exists>ts. js_get d ''timestamp'' = Inr ts
             \<and> obj_get r ''timestamp'' = (if truthy ts then ts else JStr t1))
       \<and> obj_get r ''createdAt'' = JStr t2"
  using assms
  by (auto simp: store_record_def store_record_body_def Let_def obj_get_obj_set js_or_def
        split: sum.splits option.splits)

lemma js_get_defined: "d \<noteq> JUndefined \<Longrightarrow> d \<noteq> JNull \<Longrightarrow> \<exists>v. js_get d k = Inr v"
  by (cases d) simp_all

lemma store_record_writes:
  assumes "accepts_writes b" "d \<noteq> JUndefined" "d \<noteq> JNull"
  shows "\<exists>p r. fst (store_record b coll extra t1 t2 d) = [SetDoc p r False]"
proof -
  obtain v where v: "js_get d ''timestamp'' = Inr v" using js_get_defined[OF assms(2,3)] by blast
  show ?thesis using assms(1)
    by (simp add: accepts_writes_def store_record_def store_record_body_def make_ref_def v Let_def)
qed

text \<open>C10 (amended). For every gateway write of a conversation, stage, context or session
  sub-record, the record handed to \<open>setDoc\<close> keeps the caller's \<open>timestamp\<close> when that
  value is truthy and carries the server's clock reading otherwise, and in both cases
  carries a server-assigned \<open>createdAt\<close>; when the store accepts writes and the data
  is an object, exactly one such record is written.\<close>

theorem write_timestamps:
  "is_timestamped_write c \<longrightarrow>
     (\<forall>p r m. SetDoc p r m \<in> set (fst (gateway b k c)) \<longrightarrow>
        (\<exists>ts. js_get (call_data c) ''timestamp'' = Inr ts
             \<and> obj_get r ''timestamp'' = (if truthy ts then ts else JStr (timestamp_now k)))
        \<and> obj_get r ''createdAt'' = JStr (createdAt_now k))
     \<and> (accepts_writes b \<and> call_data c \<noteq> JUndefined \<and> call_data c \<noteq> JNull \<longrightarrow>
          (\<exists>p r. fst (gateway b k c) = [SetDoc p r False]))"
  by (cases c)
     (simp_all add: storeConversation_def storeStageProgression_def storeUserContext_def
        storeSessionStageProgression_def storeSessionUserContext_def storeBreakthroughMoment_def
        storeTherapeuticTheme_def store_record_effect store_record_writes)

text \<open>C10, witness: a caller-supplied timestamp is kept, a missing one is assigned.\<close>

theorem write_timestamps_witness:
  "is_timestamped_write (StoreSessionStageProgression (JStr ''u1'') (JStr ''s1'')
       (JObj [(''stage'', JStr ''mirror''), (''timestamp'', JStr ''2024-06-01T08:00:00.000Z'')]))
   \<and> accepts_writes (up_backend (\<lambda>p. []))
   \<and> fst (gateway (up_backend (\<lambda>p. [])) noon
        (StoreSessionStageProgression (JStr ''u1'') (JStr ''s1'')
          (JObj [(''stage'', JStr ''mirror''), (''timestamp'', JStr ''2024-06-01T08:00:00.000Z'')])))
       = [SetDoc [JStr ''users'', JStr ''u1'', JStr ''sessions'', JStr ''s1'', JStr ''stages'', JStr ''doc1'']
            [(''stage'', JStr ''mirror''), (''timestamp'', JStr ''2024-06-01T08:00:00.000Z''),
             (''sessionId'', JStr ''s1''), (''createdAt'', JStr ''2025-01-01T12:00:00.001Z'')] False]
   \<and> fst (gateway (up_backend (\<lambda>p. [])) noon
        (StoreConversation (JStr ''u1'') (JObj [(''content'', JStr ''hi'')])))
       = [SetDoc [JStr ''users'', JStr ''u1'', JStr ''conversations'', JStr ''doc1'']
            [(''content'', JStr ''hi''), (''timestamp'', JStr ''2025-01-01T12:00:00.000Z''),
             (''createdAt'', JStr ''2025-01-01T12:00:00.001Z'')] False]"
  using write_timestamps [of "StoreSessionStageProgression (JStr ''u1'') (JStr ''s1'')
       (JObj [(''stage'', JStr ''mirror''), (''timestamp'', JStr ''2024-06-01T08:00:00.000Z'')])"
       "up_backend (\<lambda>p. [])" noon]
  by (simp add: accepts_writes_def up_backend_def noon_def storeSessionStageProgression_def
        storeConversation_def store_record_def store_record_body_def make_ref_def spread_def
        js_or_def obj_get_def Let_def try_catch_def)

text \<open>C10, counterexample to the claim as stated: the input carries the timestamp field
  \<open>0\<close>, and the stored record has the server's reading instead.\<close>

theorem write_timestamps_counterexample:
  "map_of [(''content'', JStr ''hi''), (''timestamp'', JNum 0)] ''timestamp'' = Some (JNum 0)
   \<and> fst (gateway (up_backend (\<lambda>p. [])) noon
        (StoreConversation (JStr ''u1'') (JObj [(''content'', JStr ''hi''), (''timestamp'', JNum 0)])))
       = [SetDoc [JStr ''users'', JStr ''u1'', JStr ''conversations'', JStr ''doc1'']
            [(''content'', JStr ''hi''), (''timestamp'', JStr ''2025-01-01T12:00:00.000Z''),
             (''createdAt'', JStr ''2025-01-01T12:00:00.001Z'')] False]"
  by (simp add: up_backend_def noon_def storeConversation_def store_record_def
        store_record_body_def make_ref_def spread_def js_or_def obj_get_def Let_def try_catch_def)

lemma data_of_distinct: "distinct (map fst (data_of d))"
  by (simp add: data_of_def spread_distinct)

lemma entry_key_entry_of: "entry_key (entry_of d) = timestamp_key d"
proof -
  have "map_of (spread [(''id'', JStr (fst d))] (data_of (snd d))) ''timestamp''
        = map_of (data_of (snd d)) ''timestamp''"
    by (simp add: map_of_spread map_of_rev_distinct[OF data_of_distinct] map_add_def
          split: option.splits)
  then show ?thesis
    by (simp add: entry_key_def entry_of_def timestamp_key_def obj_get_def)
qed

text \<open>The query: what it keeps is in descending order, is as much as the limit allows,
  and is what ranks highest among the documents that have the field.\<close>

lemma descending_sort:
  "sorted_wrt (\<lambda>d e. query_key e \<le> query_key d) (rev (sort_key query_key xs))"
proof -
  have "sorted (map query_key (sort_key query_key xs))" by (rule sorted_sort_key)
  then have "sorted_wrt (\<lambda>a b. query_key a \<le> query_key b) (sort_key query_key xs)"
    by (simp add: sorted_wrt_map)
  then show ?thesis by (simp add: sorted_wrt_rev)
qed

lemma query_recent_sorted:
  "sorted_wrt (\<lambda>d e. query_key e \<le> query_key d) (query_recent n ds)"
  unfolding query_recent_def by (rule sorted_wrt_take) (rule descending_sort)

lemma length_query_recent: "length (query_recent n ds) = min n (length (stamped ds))"
  by (simp add: query_recent_def min.commute)

lemma query_recent_rest:
  "mset (query_recent n ds @ drop n (rev (sort_key query_key (stamped ds)))) = mset (stamped ds)
   \<and> (\<forall>d \<in> set (drop n (rev (sort_key query_key (stamped ds)))).
        \<forall>e \<in> set (query_recent n ds). query_key d \<le> query_key e)"
proof -
  let ?xs = "rev (sort_key query_key (stamped ds))"
  have "sorted_wrt (\<lambda>d e. query_key e \<le> query_key d) (take n ?xs @ drop n ?xs)"
    using descending_sort[of "stamped ds"] by simp
  then have "\<forall>e \<in> set (take n ?xs). \<forall>d \<in> set (drop n ?xs). query_key d \<le> query_key e"
    unfolding sorted_wrt_append by blast
  moreover have "mset (take n ?xs @ drop n ?xs) = mset (stamped ds)" by simp
  ultimately show ?thesis unfolding query_recent_def by blast
qed

lemma timestamp_key_mono: "query_key e \<le> query_key d \<Longrightarrow> timestamp_key e \<le> timestamp_key d"
  by (auto simp: query_key_def less_eq_prod_def)

lemma recent_first_query: "recent_first (map entry_of (query_recent n ds))"
proof -
  have "sorted_wrt (\<lambda>d e. timestamp_key e \<le> timestamp_key d) (query_recent n ds)"
    using query_recent_sorted[of n ds] timestamp_key_mono
    by (rule sorted_wrt_mono_rel[rotated]) blast
  then show ?thesis
    by (simp add: recent_first_def sorted_wrt_map entry_key_entry_of)
qed

lemma recent_entries_ordered:
  "\<exists>rs. recent_entries b p lim = Inr (JArr rs) \<and> recent_first rs"
proof (cases "bind (make_ref b p) (\<lambda>ref. bind (fs_limit b lim) (\<lambda>n. bind (getDocs b ref) (\<lambda>ds.
                Inr (JArr (map entry_of (query_recent n ds))))))")
  case (Inl e)
  then show ?thesis by (simp add: recent_entries_def try_catch_def recent_first_def)
next
  case (Inr v)
  then obtain n ds where v: "v = JArr (map entry_of (query_recent n ds))"
    by (auto simp: bind_def split: sum.splits)
  then show ?thesis using Inr recent_first_query[of n ds]
    by (simp add: recent_entries_def try_catch_def)
qed

lemma recent_entries_exact:
  assumes "ref_fault b p = None" and "fs_limit b lim = Inr n" and "getDocs_outcome b p = Inr ds"
  shows "recent_entries b p lim = Inr (JArr (map entry_of (query_recent n ds)))"
  using assms by (simp add: recent_entries_def make_ref_def getDocs_def bind_def try_catch_def)

lemma list_read_ordered:
  "is_list_read c \<Longrightarrow> \<exists>rs. snd (gateway b k c) = Inr (JArr rs) \<and> recent_first rs"
  by (cases c)
     (simp_all add: getConversationHistory_def getUserStageProgressions_def getUserContext_def
        recent_entries_ordered)

lemma list_read_exact:
  assumes "is_list_read c" and "ref_fault b (call_path c) = None"
      and "fs_limit b (call_limit c) = Inr n" and "getDocs_outcome b (call_path c) = Inr ds"
  shows "snd (gateway b k c) = Inr (JArr (map entry_of (query_recent n ds)))"
  using assms
  by (cases c)
     (simp_all add: getConversationHistory_def getUserStageProgressions_def getUserContext_def
        recent_entries_exact)

lemma list_read_top:
  assumes "is_list_read c" and "ref_fault b (call_path c) = None"
      and "fs_limit b (call_limit c) = Inr n" and "getDocs_outcome b (call_path c) = Inr ds"
  shows "\<exists>kept dropped.
           snd (gateway b k c) = Inr (JArr (map entry_of kept))
           \<and> mset (kept @ dropped) = mset (stamped ds)
           \<and> length kept = min n (length (stamped ds))
           \<and> sorted_wrt (\<lambda>d e. query_key e \<le> query_key d) kept
           \<and> (\<forall>d \<in> set dropped. \<forall>e \<in> set kept. query_key d \<le> query_key e)"
  using list_read_exact[OF assms, of k] length_query_recent[of n ds] query_recent_sorted[of n ds]
        query_recent_rest[of n ds]
  by blast

text \<open>The limit the store applies.\<close>

lemma fs_limit_number: "0 < j \<Longrightarrow> fs_limit b (JNum j) = Inr (nat j)"
  by (simp add: fs_limit_def)

lemma fs_limit_numeral:
  "0 < j \<Longrightarrow> string_to_number s = Some j \<Longrightarrow> s = show_int j \<Longrightarrow> fs_limit b (JStr s) = Inr (nat j)"
  by (simp add: fs_limit_def)

lemma profile_effect:
  assumes "SetDoc p r m \<in> set (fst (storeUserProfile b t u d))"
  shows "obj_get r ''lastUpdated'' = JStr t
       \<and> (map_of (own_entries d) ''createdAt'' = None \<longrightarrow> map_of r ''createdAt'' = None)"
proof -
  have "map_of (rev (own_entries d)) ''createdAt'' = None"
    if "map_of (own_entries d) ''createdAt'' = None"
    using that by (simp add: map_of_eq_None_iff)
  then show ?thesis using assms
    by (auto simp: storeUserProfile_def storeUserProfile_body_def Let_def obj_get_obj_set
          map_of_obj_set map_of_spread split: sum.splits option.splits)
qed

lemma session_one:
  assumes "ref_fault b [JStr ''users'', u, JStr ''sessions'', s, JStr name] = None"
      and "getDocs_outcome b [JStr ''users'', u, JStr ''sessions'', s, JStr name] = Inr ds"
  shows "session_section b u s (JStr name) name acc = Inr (obj_set acc name (JArr (map entry_of ds)))"
  using assms by (simp add: session_section_def bind_def make_ref_def getDocs_def)

lemma session_other:
  "name' \<noteq> name \<Longrightarrow> name \<noteq> ''all'' \<Longrightarrow> session_section b u s (JStr name) name' acc = Inr acc"
  by (simp add: session_section_def)

lemma session_data_unordered:
  assumes "name \<in> set session_names"
      and "ref_fault b [JStr ''users'', u, JStr ''sessions'', s, JStr name] = None"
      and "getDocs_outcome b [JStr ''users'', u, JStr ''sessions'', s, JStr name] = Inr ds"
  shows "getSessionData b u s (JStr name) = Inr (JObj [(name, JArr (map entry_of ds))])"
proof -
  have one: "session_section b u s (JStr name) name [] = Inr [(name, JArr (map entry_of ds))]"
    using session_one[OF assms(2,3), of "[]"] by simp
  consider "name = ''stages''" | "name = ''context''" | "name = ''breakthroughs''" | "name = ''themes''"
    using assms(1) by (auto simp: session_names_def)
  then show ?thesis
  proof cases
    case 1
    then show ?thesis using one
      by (simp add: getSessionData_def default_arg_def Let_def bind_def try_catch_def session_other)
  next
    case 2
    then show ?thesis using one
      by (simp add: getSessionData_def default_arg_def Let_def bind_def try_catch_def session_other)
  next
    case 3
    then show ?thesis using one
      by (simp add: getSessionData_def default_arg_def Let_def bind_def try_catch_def session_other)
  next
    case 4
    then show ?thesis using one
      by (simp add: getSessionData_def default_arg_def Let_def bind_def try_catch_def session_other)
  qed
qed

lemma session_all_one:
  assumes "ref_fault b [JStr ''users'', u, JStr ''sessions'', s, JStr name] = None"
      and "getDocs_outcome b [JStr ''users'', u, JStr ''sessions'', s, JStr name] = Inr ds"
  shows "session_section b u s (JStr ''all'') name acc = Inr (obj_set acc name (JArr (map entry_of ds)))"
  using assms by (simp add: session_section_def bind_def make_ref_def getDocs_def)

lemma session_data_all:
  assumes "default_arg t (JStr ''all'') = JStr ''all''"
      and "\<forall>name \<in> set session_names.
             ref_fault b [JStr ''users'', u, JStr ''sessions'', s, JStr name] = None"
      and "getDocs_outcome b [JStr ''users'', u, JStr ''sessions'', s, JStr ''stages''] = Inr d1"
      and "getDocs_outcome b [JStr ''users'', u, JStr ''sessions'', s, JStr ''context''] = Inr d2"
      and "getDocs_outcome b [JStr ''users'', u, JStr ''sessions'', s, JStr ''breakthroughs''] = Inr d3"
      and "getDocs_outcome b [JStr ''users'', u, JStr ''sessions'', s, JStr ''themes''] = Inr d4"
  shows "getSessionData b u s t
           = Inr (JObj [(''stages'', JArr (map entry_of d1)), (''context'', JArr (map entry_of d2)),
                        (''breakthroughs'', JArr (map entry_of d3)),
                        (''themes'', JArr (map entry_of d4))])"
proof -
  have r: "ref_fault b [JStr ''users'', u, JStr ''sessions'', s, JStr ''stages''] = None"
          "ref_fault b [JStr ''users'', u, JStr ''sessions'', s, JStr ''context''] = None"
          "ref_fault b [JStr ''users'', u, JStr ''sessions'', s, JStr ''breakthroughs''] = None"
          "ref_fault b [JStr ''users'', u, JStr ''sessions'', s, JStr ''themes''] = None"
    using assms(2) by (simp_all add: session_names_def)
  show ?thesis
    by (simp add: getSessionData_def assms(1) Let_def bind_def try_catch_def
          session_all_one[OF r(1) assms(3)] session_all_one[OF r(2) assms(4)]
          session_all_one[OF r(3) assms(5)] session_all_one[OF r(4) assms(6)])
qed

text \<open>C3 (amended). The three list reads (\<open>getConversationHistory\<close>,
  \<open>getUserStageProgressions\<close>, \<open>getUserContext\<close>) return entries ordered
  most-recent-first by \<open>timestamp\<close>. When the collection is read with limit \<open>n\<close>, the
  entries returned are those of \<open>min n\<close> (number of documents with a \<open>timestamp\<close>)
  documents, in descending order of (\<open>timestamp\<close>, id), and no document left out
  ranks above one returned; the limit is the caller's (default 50, 50 and 20), a
  positive number or its decimal numeral giving that many. Every conversation, stage,
  context and session write attaches a server-assigned \<open>createdAt\<close>;
  \<open>storeUserProfile\<close> attaches a server-assigned \<open>lastUpdated\<close> and no \<open>createdAt\<close>
  of its own. \<open>getSessionData\<close> takes no limit: asked for one sub-collection it returns
  every document of it in the order the store gives them, and asked for all (the
  default) it returns every document of each of the four, in that order.\<close>

theorem reads_and_writes_stamped:
  "(is_list_read c \<longrightarrow> (\<exists>rs. snd (gateway b k c) = Inr (JArr rs) \<and> recent_first rs))
   \<and> (is_list_read c \<and> ref_fault b (call_path c) = None
        \<and> fs_limit b (call_limit c) = Inr n \<and> getDocs_outcome b (call_path c) = Inr ds \<longrightarrow>
        (\<exists>kept dropped.
           snd (gateway b k c) = Inr (JArr (map entry_of kept))
           \<and> mset (kept @ dropped) = mset (stamped ds)
           \<and> length kept = min n (length (stamped ds))
           \<and> sorted_wrt (\<lambda>d e. query_key e \<le> query_key d) kept
           \<and> (\<forall>d \<in> set dropped. \<forall>e \<in> set kept. query_key d \<le> query_key e)))
   \<and> (0 < j \<longrightarrow> fs_limit b (JNum j) = Inr (nat j))
   \<and> (0 < j \<and> string_to_number str = Some j \<and> str = show_int j \<longrightarrow>
        fs_limit b (JStr str) = Inr (nat j))
   \<and> call_limit (GetConversationHistory u JUndefined) = JNum 50
   \<and> call_limit (GetUserStageProgressions u JUndefined) = JNum 50
   \<and> call_limit (GetUserContext u JUndefined) = JNum 20
   \<and> (lim \<noteq> JUndefined \<longrightarrow>
        call_limit (GetConversationHistory u lim) = lim
        \<and> call_limit (GetUserStageProgressions u lim) = lim
        \<and> call_limit (GetUserContext u lim) = lim)
   \<and> (is_timestamped_write c \<longrightarrow>
        (\<forall>p r m. SetDoc p r m \<in> set (fst (gateway b k c)) \<longrightarrow>
           obj_get r ''createdAt'' = JStr (createdAt_now k)))
   \<and> (\<forall>d p r m. c = StoreUserProfile u d \<and> SetDoc p r m \<in> set (fst (gateway b k c)) \<longrightarrow>
        obj_get r ''lastUpdated'' = JStr (lastUpdated_now k)
        \<and> (map_of (own_entries d) ''createdAt'' = None \<longrightarrow> map_of r ''createdAt'' = None))
   \<and> (\<forall>name. c = GetSessionData u s (JStr name) \<and> name \<in> set session_names
         \<and> ref_fault b (call_path c @ [JStr name]) = None
         \<and> getDocs_outcome b (call_path c @ [JStr name]) = Inr ds \<longrightarrow>
        snd (gateway b k c) = Inr (JObj [(name, JArr (map entry_of ds))]))
   \<and> (c = GetSessionData u s t \<and> default_arg t (JStr ''all'') = JStr ''all''
        \<and> (\<forall>name \<in> set session_names. ref_fault b (call_path c @ [JStr name]) = None)
        \<and> getDocs_outcome b (call_path c @ [JStr ''stages'']) = Inr d1
        \<and> getDocs_outcome b (call_path c @ [JStr ''context'']) = Inr d2
        \<and> getDocs_outcome b (call_path c @ [JStr ''breakthroughs'']) = Inr d3
        \<and> getDocs_outcome b (call_path c @ [JStr ''themes'']) = Inr d4 \<longrightarrow>
        snd (gateway b k c)
          = Inr (JObj [(''stages'', JArr (map entry_of d1)), (''context'', JArr (map entry_of d2)),
                       (''breakthroughs'', JArr (map entry_of d3)),
                       (''themes'', JArr (map entry_of d4))]))"
proof -
  have ordered: "is_list_read c \<longrightarrow> (\<exists>rs. snd (gateway b k c) = Inr (JArr rs) \<and> recent_first rs)"
    using list_read_ordered[of c b k] by blast
  have top: "is_list_read c \<and> ref_fault b (call_path c) = None
        \<and> fs_limit b (call_limit c) = Inr n \<and> getDocs_outcome b (call_path c) = Inr ds \<longrightarrow>
        (\<exists>kept dropped.
           snd (gateway b k c) = Inr (JArr (map entry_of kept))
           \<and> mset (kept @ dropped) = mset (stamped ds)
           \<and> length kept = min n (length (stamped ds))
           \<and> sorted_wrt (\<lambda>d e. query_key e \<le> query_key d) kept
           \<and> (\<forall>d \<in> set dropped. \<forall>e \<in> set kept. query_key d \<le> query_key e))"
    using list_read_top[of c b n ds k] by blast
  have number: "0 < j \<longrightarrow> fs_limit b (JNum j) = Inr (nat j)"
    by (simp add: fs_limit_number)
  have numeral: "0 < j \<and> string_to_number str = Some j \<and> str = show_int j \<longrightarrow>
        fs_limit b (JStr str) = Inr (nat j)"
    using fs_limit_numeral[of j str b] by blast
  have defaults: "call_limit (GetConversationHistory u JUndefined) = JNum 50"
    "call_limit (GetUserStageProgressions u JUndefined) = JNum 50"
    "call_limit (GetUserContext u JUndefined) = JNum 20"
    by (simp_all add: default_arg_def)
  have given: "lim \<noteq> JUndefined \<longrightarrow>
        call_limit (GetConversationHistory u lim) = lim
        \<and> call_limit (GetUserStageProgressions u lim) = lim
        \<and> call_limit (GetUserContext u lim) = lim"
    by (simp add: default_arg_def)
  have created: "is_timestamped_write c \<longrightarrow>
        (\<forall>p r m. SetDoc p r m \<in> set (fst (gateway b k c)) \<longrightarrow>
           obj_get r ''createdAt'' = JStr (createdAt_now k))"
    by (cases c)
       (auto simp: storeConversation_def storeStageProgression_def storeUserContext_def
          storeSessionStageProgression_def storeSessionUserContext_def storeBreakthroughMoment_def
          storeTherapeuticTheme_def dest: store_record_effect)
  have profile: "\<forall>d p r m. c = StoreUserProfile u d \<and> SetDoc p r m \<in> set (fst (gateway b k c)) \<longrightarrow>
        obj_get r ''lastUpdated'' = JStr (lastUpdated_now k)
        \<and> (map_of (own_entries d) ''createdAt'' = None \<longrightarrow> map_of r ''createdAt'' = None)"
  proof (intro allI impI)
    fix d p r m
    assume a: "c = StoreUserProfile u d \<and> SetDoc p r m \<in> set (fst (gateway b k c))"
    then have "SetDoc p r m \<in> set (fst (storeUserProfile b (lastUpdated_now k) u d))" by auto
    then show "obj_get r ''lastUpdated'' = JStr (lastUpdated_now k)
        \<and> (map_of (own_entries d) ''createdAt'' = None \<longrightarrow> map_of r ''createdAt'' = None)"
      by (rule profile_effect)
  qed
  have one: "\<forall>name. c = GetSessionData u s (JStr name) \<and> name \<in> set session_names
         \<and> ref_fault b (call_path c @ [JStr name]) = None
         \<and> getDocs_outcome b (call_path c @ [JStr name]) = Inr ds \<longrightarrow>
        snd (gateway b k c) = Inr (JObj [(name, JArr (map entry_of ds))])"
    using session_data_unordered[of _ b u s ds] by auto
  have all: "c = GetSessionData u s t \<and> default_arg t (JStr ''all'') = JStr ''all''
        \<and> (\<forall>name \<in> set session_names. ref_fault b (call_path c @ [JStr name]) = None)
        \<and> getDocs_outcome b (call_path c @ [JStr ''stages'']) = Inr d1
        \<and> getDocs_outcome b (call_path c @ [JStr ''context'']) = Inr d2
        \<and> getDocs_outcome b (call_path c @ [JStr ''breakthroughs'']) = Inr d3
        \<and> getDocs_outcome b (call_path c @ [JStr ''themes'']) = Inr d4 \<longrightarrow>
        snd (gateway b k c)
          = Inr (JObj [(''stages'', JArr (map entry_of d1)), (''context'', JArr (map entry_of d2)),
                       (''breakthroughs'', JArr (map entry_of d3)),
                       (''themes'', JArr (map entry_of d4))])"
  proof
    assume a: "c = GetSessionData u s t \<and> default_arg t (JStr ''all'') = JStr ''all''
        \<and> (\<forall>name \<in> set session_names. ref_fault b (call_path c @ [JStr name]) = None)
        \<and> getDocs_outcome b (call_path c @ [JStr ''stages'']) = Inr d1
        \<and> getDocs_outcome b (call_path c @ [JStr ''context'']) = Inr d2
        \<and> getDocs_outcome b (call_path c @ [JStr ''breakthroughs'']) = Inr d3
        \<and> getDocs_outcome b (call_path c @ [JStr ''themes'']) = Inr d4"
    then have c: "c = GetSessionData u s t" by simp
    have "getSessionData b u s t
           = Inr (JObj [(''stages'', JArr (map entry_of d1)), (''context'', JArr (map entry_of d2)),
                        (''breakthroughs'', JArr (map entry_of d3)),
                        (''themes'', JArr (map entry_of d4))])"
      by (rule session_data_all) (use a in \<open>simp_all add: c\<close>)
    then show "snd (gateway b k c)
          = Inr (JObj [(''stages'', JArr (map entry_of d1)), (''context'', JArr (map entry_of d2)),
                       (''breakthroughs'', JArr (map entry_of d3)),
                       (''themes'', JArr (map entry_of d4))])"
      by (simp add: c)
  qed
  from ordered top number numeral defaults given created profile one all show ?thesis
    by (intro conjI)
qed

lemma two_stages_entries:
  "map entry_of two_stages =
     [JObj [(''id'', JStr ''a1''), (''stage'', JStr ''mirror''), (''timestamp'', JStr ''2025-01-01T09:00:00.000Z'')],
      JObj [(''id'', JStr ''b2''), (''stage'', JStr ''bridge''), (''timestamp'', JStr ''2025-01-02T09:00:00.000Z'')]]"
  by (simp add: two_stages_def entry_of_def data_of_def spread_def)

lemma three_messages_recent:
  "query_recent 2 three_messages =
     [(''c3'', [(''content'', JStr ''third''), (''timestamp'', JStr ''2025-01-03T09:00:00.000Z'')]),
      (''a1'', [(''content'', JStr ''second''), (''timestamp'', JStr ''2025-01-02T09:00:00.000Z'')])]"
  by (simp add: query_recent_def stamped_def three_messages_def query_key_def timestamp_key_def
        data_of_def spread_def obj_get_def string_key_def less_eq_prod_def)

lemma three_messages_stamped: "length (stamped three_messages) = 3"
  by (simp add: stamped_def three_messages_def data_of_def spread_def)

text \<open>C3, counterexample to the claim as stated: the session-data read returns the older
  entry first, and the profile write stores no creation timestamp.\<close>

theorem reads_and_writes_stamped_counterexample:
  "getSessionData (up_backend (\<lambda>p. two_stages)) (JStr ''u1'') (JStr ''s1'') (JStr ''stages'')
     = Inr (JObj [(''stages'', JArr
         [JObj [(''id'', JStr ''a1''), (''stage'', JStr ''mirror''), (''timestamp'', JStr ''2025-01-01T09:00:00.000Z'')],
          JObj [(''id'', JStr ''b2''), (''stage'', JStr ''bridge''), (''timestamp'', JStr ''2025-01-02T09:00:00.000Z'')]])])
   \<and> \<not> recent_first
         [JObj [(''id'', JStr ''a1''), (''stage'', JStr ''mirror''), (''timestamp'', JStr ''2025-01-01T09:00:00.000Z'')],
          JObj [(''id'', JStr ''b2''), (''stage'', JStr ''bridge''), (''timestamp'', JStr ''2025-01-02T09:00:00.000Z'')]]
   \<and> fst (gateway (up_backend (\<lambda>p. [])) noon (StoreUserProfile (JStr ''u1'') (JObj [(''name'', JStr ''Ada'')])))
       = [SetDoc [JStr ''users'', JStr ''u1'']
            [(''name'', JStr ''Ada''), (''lastUpdated'', JStr ''2025-01-01T12:00:00.000Z'')] True]"
  by (simp add: getSessionData_def default_arg_def session_section_def bind_def make_ref_def
        getDocs_def try_catch_def Let_def up_backend_def two_stages_entries recent_first_def
        entry_key_def obj_get_def string_key_def noon_def storeUserProfile_def
        storeUserProfile_body_def spread_def)

text \<open>C3, witness: of three stored messages, a read with limit \<open>'2'\<close> (or 2) returns the
  two most recent, newest first; a session read without a data type returns the four
  sub-collections as stored.\<close>

theorem reads_and_writes_stamped_witness:
  "is_list_read (GetConversationHistory (JStr ''u1'') (JStr ''2''))
   \<and> ref_fault (up_backend (\<lambda>p. three_messages))
        (call_path (GetConversationHistory (JStr ''u1'') (JStr ''2''))) = None
   \<and> fs_limit (up_backend (\<lambda>p. three_messages))
        (call_limit (GetConversationHistory (JStr ''u1'') (JStr ''2''))) = Inr 2
   \<and> getDocs_outcome (up_backend (\<lambda>p. three_messages))
        (call_path (GetConversationHistory (JStr ''u1'') (JStr ''2''))) = Inr three_messages
   \<and> snd (gateway (up_backend (\<lambda>p. three_messages)) noon (GetConversationHistory (JStr ''u1'') (JStr ''2'')))
       = Inr (JArr
           [JObj [(''id'', JStr ''c3''), (''content'', JStr ''third''), (''timestamp'', JStr ''2025-01-03T09:00:00.000Z'')],
            JObj [(''id'', JStr ''a1''), (''content'', JStr ''second''), (''timestamp'', JStr ''2025-01-02T09:00:00.000Z'')]])
   \<and> snd (gateway (up_backend (\<lambda>p. three_messages)) noon (GetConversationHistory (JStr ''u1'') (JNum 2)))
       = Inr (JArr
           [JObj [(''id'', JStr ''c3''), (''content'', JStr ''third''), (''timestamp'', JStr ''2025-01-03T09:00:00.000Z'')],
            JObj [(''id'', JStr ''a1''), (''content'', JStr ''second''), (''timestamp'', JStr ''2025-01-02T09:00:00.000Z'')]])
   \<and> length (stamped three_messages) = 3
   \<and> string_to_number ''2'' = Some 2 \<and> show_int 2 = ''2''
   \<and> snd (gateway (up_backend (\<lambda>p. two_stages)) noon (GetSessionData (JStr ''u1'') (JStr ''s1'') JUndefined))
       = Inr (JObj
           [(''stages'', JArr (map entry_of two_stages)), (''context'', JArr (map entry_of two_stages)),
            (''breakthroughs'', JArr (map entry_of two_stages)),
            (''themes'', JArr (map entry_of two_stages))])"
  using reads_and_writes_stamped [where c = "GetConversationHistory (JStr ''u1'') (JStr ''2'')"
          and b = "up_backend (\<lambda>p. three_messages)" and k = noon and n = 2
          and ds = three_messages and j = 2 and str = "''2''"]
  by (simp add: getConversationHistory_def recent_entries_def default_arg_def bind_def make_ref_def
        getDocs_def try_catch_def up_backend_def fs_limit_def string_to_number_def is_digit_def
        show_int_def show_nat.simps[of 2] digit_char_def three_messages_recent entry_of_def
        data_of_def spread_def getSessionData_def session_section_def Let_def
        three_messages_stamped)

subsection \<open>Context Aggregation Tool\<close>

lemma aggregate_calls:
  "c \<in> set (fst (aggregate svc now u ct lim sid)) \<Longrightarrow> limit_arg c = Some n \<Longrightarrow> n = lim"
  by (auto simp: aggregate_def Let_def conversations_block_def profile_block_def stages_block_def
        session_block_def split: if_splits)

text \<open>C4 (amended). Every limit that \<open>execute\<close> hands to a Storage Gateway query is the
  caller's \<open>limit\<close> parameter as given, and 10 when the caller omits it; the range 1 to
  50 is declared in the tool schema only, so the limit used lies in it exactly when the
  caller's value does.\<close>

theorem execute_limit:
  assumes "c \<in> set (fst (execute fs now p))" and "limit_arg c = Some n"
  shows "(opt_get p ''limit'' = JUndefined \<longrightarrow> n = JNum 10)
       \<and> (opt_get p ''limit'' \<noteq> JUndefined \<longrightarrow> n = opt_get p ''limit'')"
proof -
  have "n = default_arg (opt_get p ''limit'') (JNum 10)"
    using assms
    by (auto simp: execute_def Let_def tool_failure_def split: sum.splits if_splits option.splits
          dest: aggregate_calls)
  then show ?thesis by (simp add: default_arg_def)
qed

text \<open>C4, witness: without a limit the history query is made with 10.\<close>

theorem execute_limit_witness:
  "fst (execute (Some profile_down_service) ''2025-01-02T10:00:00.000Z''
         (JObj [(''user_id'', JStr ''u1''), (''session_id'', JStr ''s1'')]))
     = [GetConversationHistory (JStr ''u1'') (JNum 10), GetUserProfile (JStr ''u1''),
        GetUserStageProgressions (JStr ''u1'') (JNum 10),
        GetSessionData (JStr ''u1'') (JStr ''s1'') JUndefined]
   \<and> limit_arg (GetConversationHistory (JStr ''u1'') (JNum 10)) = Some (JNum 10)
   \<and> opt_get (JObj [(''user_id'', JStr ''u1''), (''session_id'', JStr ''s1'')]) ''limit'' = JUndefined"
  using execute_limit [of "GetConversationHistory (JStr ''u1'') (JNum 10)" "Some profile_down_service"
          "''2025-01-02T10:00:00.000Z''"
          "JObj [(''user_id'', JStr ''u1''), (''session_id'', JStr ''s1'')]" "JNum 10"]
  by (simp add: execute_def aggregate_def Let_def conversations_block_def profile_block_def
        stages_block_def session_block_def default_arg_def opt_get_def obj_get_def)

text \<open>C4, counterexample to the claim as stated: a request to \<open>/api/tools/context\<close>
  with limit 1000 reaches the gateway queries with 1000.\<close>

theorem execute_limit_counterexample:
  "fst (tools_context_route (Some profile_down_service) ''2025-01-02T10:00:00.000Z''
         \<lparr>headers = Map.empty, params = Map.empty,
          body = [(''user_id'', JStr ''u1''), (''limit'', JNum 1000)]\<rparr>)
     = [GetCurrentSessionId (JStr ''u1''),
        GetConversationHistory (JStr ''u1'') (JNum 1000), GetUserProfile (JStr ''u1''),
        GetUserStageProgressions (JStr ''u1'') (JNum 1000),
        GetSessionData (JStr ''u1'') (JStr ''session_2025-01-02_1735808400000'') JUndefined]"
  by (simp add: tools_context_route_def execute_def aggregate_def Let_def conversations_block_def
        profile_block_def stages_block_def session_block_def default_arg_def opt_get_def obj_get_def)








lemma gateway_reads_clock_free:
  "reads_store c \<Longrightarrow> firebase_service b k1 c = firebase_service b k2 c"
  by (cases c) (simp_all add: firebase_service_def)

lemma aggregate_same_reads:
  assumes "\<forall>c. reads_store c \<longrightarrow> S1 c = S2 c"
  shows "fst (aggregate S1 t1 u ct lim sid) = fst (aggregate S2 t2 u ct lim sid)
       \<and> without_timestamp (snd (aggregate S1 t1 u ct lim sid))
         = without_timestamp (snd (aggregate S2 t2 u ct lim sid))"
proof -
  have b1: "conversations_block S1 u lim ct ctx = conversations_block S2 u lim ct ctx" for ctx
    using assms by (simp add: conversations_block_def)
  have b2: "profile_block S1 u ct ctx = profile_block S2 u ct ctx" for ctx
    using assms by (simp add: profile_block_def)
  have b3: "stages_block S1 u lim ct ctx = stages_block S2 u lim ct ctx" for ctx
    using assms by (simp add: stages_block_def)
  have b4: "session_block S1 u sid ct ctx = session_block S2 u sid ct ctx" for ctx
    using assms by (simp add: session_block_def)
  show ?thesis
    by (simp add: aggregate_def Let_def b1 b2 b3 b4 without_timestamp_def obj_get_def)
qed

text \<open>C8 (amended). \<open>execute\<close> keeps no state, and two calls with identical parameters
  against a gateway whose reads answer the same make the same gateway calls and return
  results that are identical except for the \<open>timestamp\<close> field of the data object,
  which is the clock reading of each call; this holds when the caller supplies a
  session id (or the gateway hands out the same session id both times), since a
  generated session id depends on the clock as well.\<close>

theorem execute_repeatable:
  assumes "\<forall>c. reads_store c \<longrightarrow> S1 c = S2 c"
      and "truthy (opt_get p ''session_id'')
           \<or> (\<forall>u. S1 (GetCurrentSessionId u) = S2 (GetCurrentSessionId u))"
  shows "fst (execute (Some S1) t1 p) = fst (execute (Some S2) t2 p)
       \<and> without_timestamp (snd (execute (Some S1) t1 p))
         = without_timestamp (snd (execute (Some S2) t2 p))"
proof (cases "js_get p ''user_id''")
  case (Inl e)
  then show ?thesis by (simp add: execute_def)
next
  case (Inr u)
  show ?thesis
  proof (cases "truthy (opt_get p ''session_id'')")
    case True
    then show ?thesis
      using Inr aggregate_same_reads[OF assms(1)] by (simp add: execute_def Let_def)
  next
    case False
    then have same: "S1 (GetCurrentSessionId u) = S2 (GetCurrentSessionId u)"
      using assms(2) by blast
    show ?thesis
      using Inr False same aggregate_same_reads[OF assms(1)]
      by (simp add: execute_def Let_def split: sum.splits)
  qed
qed

text \<open>C8, witness: the gateway over one store at two different times, with a session id
  supplied.\<close>

theorem execute_repeatable_witness:
  "reads_store (GetConversationHistory (JStr ''u1'') (JNum 10))
   \<and> firebase_service (up_backend (\<lambda>p. three_messages)) noon (GetConversationHistory (JStr ''u1'') (JNum 10))
       = firebase_service (up_backend (\<lambda>p. three_messages)) evening (GetConversationHistory (JStr ''u1'') (JNum 10))
   \<and> truthy (opt_get (JObj [(''user_id'', JStr ''u1''), (''session_id'', JStr ''s1'')]) ''session_id'')
   \<and> without_timestamp
        (snd (execute (Some (firebase_service (up_backend (\<lambda>p. three_messages)) noon))
                ''2025-01-01T12:00:00.000Z''
                (JObj [(''user_id'', JStr ''u1''), (''session_id'', JStr ''s1'')])))
      = without_timestamp
          (snd (execute (Some (firebase_service (up_backend (\<lambda>p. three_messages)) evening))
                  ''2025-01-01T20:00:00.000Z''
                  (JObj [(''user_id'', JStr ''u1''), (''session_id'', JStr ''s1'')])))"
  using execute_repeatable [of "firebase_service (up_backend (\<lambda>p. three_messages)) noon"
          "firebase_service (up_backend (\<lambda>p. three_messages)) evening"
          "JObj [(''user_id'', JStr ''u1''), (''session_id'', JStr ''s1'')]"
          "''2025-01-01T12:00:00.000Z''" "''2025-01-01T20:00:00.000Z''"]
        gateway_reads_clock_free [of _ "up_backend (\<lambda>p. three_messages)" noon evening]
  by (simp add: opt_get_def obj_get_def firebase_service_def)

lemma session_id_noon:
  "getCurrentSessionId (session_date_now noon) (session_ms_now noon) u
     = Inr (JStr ''session_2025-01-01_1735732800000'')"
  by (simp add: getCurrentSessionId_def noon_def try_catch_def show_nat.simps digit_char_def)

lemma session_id_evening:
  "getCurrentSessionId (session_date_now evening) (session_ms_now evening) u
     = Inr (JStr ''session_2025-01-01_1735761600000'')"
  by (simp add: getCurrentSessionId_def evening_def try_catch_def show_nat.simps digit_char_def)

text \<open>C8, counterexample to the claim as stated: two calls with the same parameters on
  the same, unchanged gateway return data objects with different timestamps; and
  without a session id the two results differ in the generated session id as well.\<close>

theorem execute_repeatable_counterexample:
  "snd (execute (Some (firebase_service (up_backend (\<lambda>p. [])) noon)) ''2025-01-01T12:00:00.000Z''
          (JObj [(''user_id'', JStr ''u1''), (''context_type'', JStr ''profile''),
                 (''session_id'', JStr ''s1'')]))
   \<noteq> snd (execute (Some (firebase_service (up_backend (\<lambda>p. [])) noon)) ''2025-01-01T20:00:00.000Z''
          (JObj [(''user_id'', JStr ''u1''), (''context_type'', JStr ''profile''),
                 (''session_id'', JStr ''s1'')]))
   \<and> without_timestamp
        (snd (execute (Some (firebase_service (up_backend (\<lambda>p. [])) noon)) ''2025-01-01T12:00:00.000Z''
                (JObj [(''user_id'', JStr ''u1''), (''context_type'', JStr ''profile'')])))
      \<noteq> without_timestamp
          (snd (execute (Some (firebase_service (up_backend (\<lambda>p. [])) evening)) ''2025-01-01T20:00:00.000Z''
                  (JObj [(''user_id'', JStr ''u1''), (''context_type'', JStr ''profile'')])))"
  by (simp add: execute_def aggregate_def Let_def conversations_block_def profile_block_def
        stages_block_def session_block_def default_arg_def opt_get_def obj_get_def
        firebase_service_def session_id_noon session_id_evening getUserProfile_def bind_def
        make_ref_def try_catch_def up_backend_def without_timestamp_def generateInstructions_def
        js_gt_def)

end
